theory Spec2Isabelle
  imports Main "HOL-Library.Sublist"
begin


section \<open>Go strings\<close>

text \<open>
  A Go string is a sequence of bytes, modelled as \<^typ>\<open>string\<close>. The functions of package
  \<^verbatim>\<open>strings\<close> that the program calls are modelled on the ASCII range, where Go's Unicode case
  mapping and white-space classes coincide with the definitions below. Text with letters or
  white space outside ASCII is outside this model.
\<close>

definition is_upper :: "char \<Rightarrow> bool" where
  "is_upper c = (65 \<le> (of_char c :: nat) \<and> (of_char c :: nat) \<le> 90)"

definition is_digit :: "char \<Rightarrow> bool" where
  "is_digit c = (48 \<le> (of_char c :: nat) \<and> (of_char c :: nat) \<le> 57)"

definition is_space :: "char \<Rightarrow> bool" where
  "is_space c = ((of_char c :: nat) \<in> {9, 10, 11, 12, 13, 32})"

text \<open>
  \<^verbatim>\<open>c += 'a' - 'A'\<close> for a byte in \<^verbatim>\<open>'A'..'Z'\<close>: adding 32 sets the bit of value 32, which is
  clear in every upper-case letter (see \<open>lower_char_add32\<close> below).
\<close>

fun lower_char :: "char \<Rightarrow> char" where
  "lower_char (Char b0 b1 b2 b3 b4 b5 b6 b7) =
     (if is_upper (Char b0 b1 b2 b3 b4 b5 b6 b7) then Char b0 b1 b2 b3 b4 True b6 b7
      else Char b0 b1 b2 b3 b4 b5 b6 b7)"

definition ToLower :: "string \<Rightarrow> string" where
  "ToLower s = map lower_char s"

text \<open>\<^verbatim>\<open>strings.EqualFold\<close>: equality under case folding; on ASCII, equality of the lower-cased texts.\<close>

definition EqualFold :: "string \<Rightarrow> string \<Rightarrow> bool" where
  "EqualFold s t = (ToLower s = ToLower t)"

definition HasPrefix :: "string \<Rightarrow> string \<Rightarrow> bool" where
  "HasPrefix s p = (take (length p) s = p)"

definition TrimPrefix :: "string \<Rightarrow> string \<Rightarrow> string" where
  "TrimPrefix s p = (if HasPrefix s p then drop (length p) s else s)"

fun Contains :: "string \<Rightarrow> string \<Rightarrow> bool" where
  "Contains [] sub = (sub = [])"
| "Contains (c # cs) sub = (HasPrefix (c # cs) sub \<or> Contains cs sub)"

definition TrimSpace :: "string \<Rightarrow> string" where
  "TrimSpace s = rev (dropWhile is_space (rev (dropWhile is_space s)))"

text \<open>\<^verbatim>\<open>strings.Split(s, sep)\<close> for a one-byte separator: always at least one field.\<close>

fun Split :: "string \<Rightarrow> char \<Rightarrow> string list" where
  "Split [] sep = [[]]"
| "Split (c # cs) sep =
     (if c = sep then [] # Split cs sep
      else (case Split cs sep of [] \<Rightarrow> [[c]] | w # ws \<Rightarrow> (c # w) # ws))"

fun Join :: "string list \<Rightarrow> string \<Rightarrow> string" where
  "Join [] sep = []"
| "Join [x] sep = x"
| "Join (x # y # ys) sep = x @ sep @ Join (y # ys) sep"

text \<open>The verb \<^verbatim>\<open>%d\<close> of \<^verbatim>\<open>fmt.Sprintf\<close> on an \<^verbatim>\<open>int\<close>: decimal digits, a minus sign when negative.\<close>

definition digit_char :: "nat \<Rightarrow> char" where
  "digit_char n = (''0123456789'' ! n)"

function fmt_nat :: "nat \<Rightarrow> string" where
  "fmt_nat n = (if n < 10 then [digit_char n] else fmt_nat (n div 10) @ [digit_char (n mod 10)])"
  by pat_completeness auto
termination
  by (relation "measure id") auto

declare fmt_nat.simps [simp del]

definition fmt_d :: "int \<Rightarrow> string" where
  "fmt_d i = (if i < 0 then CHR ''-'' # fmt_nat (nat (- i)) else fmt_nat (nat i))"


section \<open>The ticket pattern\<close>

text \<open>
  The two collectors compile \<^verbatim>\<open>regexp.MustCompile(`POKER-\d+`)\<close> and
  \<^verbatim>\<open>regexp.MustCompile(`SCRUM-\d+`)\<close>: a literal prefix followed by one or more ASCII digits,
  as many as there are. \<open>match_here\<close> is the match anchored at the start of the text,
  \<open>FindStringSubmatch\<close> the leftmost match: \<^verbatim>\<open>nil\<close> (the empty list) when there is none, else
  the list holding the whole match (the pattern has no groups).
\<close>

definition match_here :: "string \<Rightarrow> string \<Rightarrow> string option" where
  "match_here pre s =
     (if HasPrefix s pre
      then (let ds = takeWhile is_digit (drop (length pre) s)
            in if ds = [] then None else Some (pre @ ds))
      else None)"

fun FindStringSubmatch :: "string \<Rightarrow> string \<Rightarrow> string list" where
  "FindStringSubmatch pre [] = (case match_here pre [] of Some m \<Rightarrow> [m] | None \<Rightarrow> [])"
| "FindStringSubmatch pre (c # cs) =
     (case match_here pre (c # cs) of Some m \<Rightarrow> [m] | None \<Rightarrow> FindStringSubmatch pre cs)"

text \<open>A text matches the whole pattern: the prefix, then digits only, at least one.\<close>

definition matches_pattern :: "string \<Rightarrow> string \<Rightarrow> bool" where
  "matches_pattern pre m =
     (HasPrefix m pre \<and> drop (length pre) m \<noteq> [] \<and> list_all is_digit (drop (length pre) m))"

text \<open>
  github.go, lines 167-173 (and the same lines of the monolithic collector): the ticket stays
  empty when the title pointer is nil or nothing matches, else it is \<^verbatim>\<open>matches[0]\<close>.
\<close>

definition extract_ticket :: "string \<Rightarrow> string option \<Rightarrow> string" where
  "extract_ticket pre title =
     (case title of
        None \<Rightarrow> []
      | Some t \<Rightarrow> (case FindStringSubmatch pre t of [] \<Rightarrow> [] | m # _ \<Rightarrow> m))"

definition jiraRegex_github :: string where
  "jiraRegex_github = ''POKER-''"

definition jiraRegex_main :: string where
  "jiraRegex_main = ''SCRUM-''"


section \<open>The issue tracker (internal/jira/jira.go)\<close>

text \<open>
  Log output is the list of lines written with \<^verbatim>\<open>log.Printf\<close> and \<^verbatim>\<open>log.Println\<close>, oldest first.
  Lines that are written only when \<^verbatim>\<open>DebugMode\<close> is set are diagnostics and are left out; what
  debug mode changes in the control flow is kept.
\<close>

type_synonym log = "string list"

record jira_FetchOptions =
  jira_URL :: string
  jira_Username :: string
  jira_APIToken :: string
  jira_UsePAT :: bool
  jira_DebugMode :: bool

record TicketInfo =
  TicketID :: string
  Status :: string
  Summary :: string
  IsBlocked :: bool

text \<open>
  What the program reads of a go-jira \<^verbatim>\<open>Issue\<close>: the \<^verbatim>\<open>Fields\<close> pointer, in it the \<^verbatim>\<open>Status\<close>
  pointer with its \<^verbatim>\<open>Name\<close>, the summary and the labels (a nil slice is the empty list: the
  program only ranges over it).
\<close>

record IssueFields =
  Fields_Status :: "string option"
  Fields_Summary :: string
  Fields_Labels :: "string list"

record Issue =
  Fields :: "IssueFields option"

text \<open>
  The triple returned by \<^verbatim>\<open>jiraClient.Issue.Get\<close>: the issue pointer, the status code of the
  response (\<open>None\<close> for a nil response) and the error text (\<open>None\<close> for a nil error).
\<close>

record Get_result =
  got_issue :: "Issue option"
  got_resp :: "nat option"
  got_err :: "string option"

datatype jira_auth = PATAuth string | BasicAuth string string

record jira_client =
  client_auth :: jira_auth
  client_URL :: string

text \<open>
  The tracker as the program sees it through go-jira: \<^verbatim>\<open>jira.NewClient\<close> may reject the base URL,
  \<^verbatim>\<open>User.GetSelf\<close> may fail, and \<^verbatim>\<open>Issue.Get\<close> answers a lookup.
\<close>

record jira_service =
  NewClient_err :: "string \<Rightarrow> string option"
  GetSelf_err :: "jira_client \<Rightarrow> string option"
  Issue_Get :: "jira_client \<Rightarrow> string \<Rightarrow> Get_result"

text \<open>The three \<^verbatim>\<open>strings.Contains\<close> tests of lines 140-142 and 154-156, on a lower-cased text.\<close>

definition contains_blocking_word :: "string \<Rightarrow> bool" where
  "contains_blocking_word s =
     (Contains s ''block'' \<or> Contains s ''impediment'' \<or> Contains s ''pause'')"

text \<open>Lines 137-148: the check of the status name.\<close>

definition check_status :: "string option \<Rightarrow> TicketInfo \<Rightarrow> TicketInfo" where
  "check_status st ticketInfo =
     (case st of
        None \<Rightarrow> ticketInfo
      | Some name \<Rightarrow>
          if name \<noteq> [] \<and> contains_blocking_word (ToLower name)
          then ticketInfo\<lparr>IsBlocked := True\<rparr> else ticketInfo)"

text \<open>Lines 150-164: the loop over the labels, left at the first hit.\<close>

fun check_labels :: "string list \<Rightarrow> TicketInfo \<Rightarrow> TicketInfo" where
  "check_labels [] ticketInfo = ticketInfo"
| "check_labels (label # labels) ticketInfo =
     (if contains_blocking_word (ToLower label) then ticketInfo\<lparr>IsBlocked := True\<rparr>
      else check_labels labels ticketInfo)"

text \<open>Lines 105-135: the fresh ticket with the status and the summary of the issue.\<close>

definition status_and_summary :: "string \<Rightarrow> IssueFields \<Rightarrow> TicketInfo" where
  "status_and_summary ticketID f =
     (let ticketInfo = \<lparr>TicketID = ticketID, Status = ''Unknown'', Summary = [], IsBlocked = False\<rparr>;
          t1 = (case Fields_Status f of
                  None \<Rightarrow> ticketInfo\<lparr>Status := ''No Status''\<rparr>
                | Some name \<Rightarrow>
                    if name \<noteq> [] then ticketInfo\<lparr>Status := name\<rparr>
                    else ticketInfo\<lparr>Status := ''No Status''\<rparr>)
      in if Fields_Summary f \<noteq> [] then t1\<lparr>Summary := Fields_Summary f\<rparr>
         else t1\<lparr>Summary := ''No Description''\<rparr>)"

text \<open>Lines 105-176: the ticket built from a successful answer.\<close>

definition ticket_of_issue :: "string \<Rightarrow> Issue option \<Rightarrow> TicketInfo" where
  "ticket_of_issue ticketID issue =
     (case (case issue of None \<Rightarrow> None | Some i \<Rightarrow> Fields i) of
        Some f \<Rightarrow>
          check_labels (Fields_Labels f)
            (check_status (Fields_Status f) (status_and_summary ticketID f))
      | None \<Rightarrow>
          \<lparr>TicketID = ticketID, Status = ''No Data'', Summary = [], IsBlocked = False\<rparr>)"

definition jira_credentials_missing :: "jira_FetchOptions \<Rightarrow> bool" where
  "jira_credentials_missing opts =
     (jira_Username opts = [] \<or> jira_APIToken opts = [] \<or> jira_URL opts = [])"

definition jira_make_client :: "jira_FetchOptions \<Rightarrow> jira_client" where
  "jira_make_client opts =
     \<lparr>client_auth = (if jira_UsePAT opts then PATAuth (jira_APIToken opts)
                      else BasicAuth (jira_Username opts) (jira_APIToken opts)),
      client_URL = jira_URL opts\<rparr>"

text \<open>\<^verbatim>\<open>FetchTicketInfo\<close>: \<open>Inl\<close> carries the text of the returned error.\<close>

definition FetchTicketInfo ::
  "jira_service \<Rightarrow> jira_FetchOptions \<Rightarrow> string \<Rightarrow> string + TicketInfo" where
  "FetchTicketInfo srv opts ticketID =
     (if ticketID = [] then Inl ''ticket ID is required''
      else if jira_credentials_missing opts then Inl ''JIRA credentials not fully configured''
      else case NewClient_err srv (jira_URL opts) of
        Some e \<Rightarrow>
          Inl ((if jira_UsePAT opts then ''error creating JIRA client with PAT: ''
                else ''error creating JIRA client with Basic auth: '') @ e)
      | None \<Rightarrow>
          (let g = Issue_Get srv (jira_make_client opts) ticketID
           in case got_err g of
                Some e \<Rightarrow>
                  if got_resp g = Some 404
                  then Inr \<lparr>TicketID = ticketID, Status = ''Not Found'',
                            Summary = ''Ticket not found'', IsBlocked = False\<rparr>
                  else Inl (''error fetching JIRA ticket '' @ ticketID @ '': '' @ e)
              | None \<Rightarrow> Inr (ticket_of_issue ticketID (got_issue g))))"

text \<open>
  \<^verbatim>\<open>FetchTicketsInfo\<close>: the loop over the identifiers, threading the result map and the log,
  and the function itself, which returns the map and a nil error.
\<close>

fun FetchTicketsInfo_loop ::
  "jira_service \<Rightarrow> jira_FetchOptions \<Rightarrow> string list \<Rightarrow>
   (string \<rightharpoonup> TicketInfo) \<times> log \<Rightarrow> (string \<rightharpoonup> TicketInfo) \<times> log" where
  "FetchTicketsInfo_loop srv opts [] (results, lg) = (results, lg)"
| "FetchTicketsInfo_loop srv opts (ticketID # ticketIDs) (results, lg) =
     (if ticketID = [] then FetchTicketsInfo_loop srv opts ticketIDs (results, lg)
      else case FetchTicketInfo srv opts ticketID of
        Inl err \<Rightarrow>
          FetchTicketsInfo_loop srv opts ticketIDs
            (results(ticketID \<mapsto> \<lparr>TicketID = ticketID, Status = ''Error'',
                                    Summary = ''Error: '' @ err, IsBlocked = False\<rparr>),
             lg @ [''Warning: Error fetching JIRA ticket '' @ ticketID @ '': '' @ err])
      | Inr ticketInfo \<Rightarrow>
          FetchTicketsInfo_loop srv opts ticketIDs (results(ticketID \<mapsto> ticketInfo), lg))"

definition FetchTicketsInfo ::
  "jira_service \<Rightarrow> jira_FetchOptions \<Rightarrow> string list \<Rightarrow>
   ((string \<rightharpoonup> TicketInfo) \<times> string option) \<times> log" where
  "FetchTicketsInfo srv opts ticketIDs =
     (let (results, lg) = FetchTicketsInfo_loop srv opts ticketIDs (Map.empty, [])
      in ((results, None), lg))"

text \<open>A tracker and options to evaluate the lookups on.\<close>

definition example_tracker :: jira_service where
  "example_tracker = \<lparr>NewClient_err = (\<lambda>_. None), GetSelf_err = (\<lambda>_. None),
     Issue_Get = (\<lambda>_ t. if t = ''POKER-42''
        then \<lparr>got_issue = Some \<lparr>Fields = Some \<lparr>Fields_Status = Some ''Blocked - Waiting'',
                 Fields_Summary = ''Fix login'', Fields_Labels = [''backend'']\<rparr>\<rparr>,
              got_resp = Some 200, got_err = None\<rparr>
        else if t = ''POKER-404''
        then \<lparr>got_issue = None, got_resp = Some 404, got_err = Some ''Issue does not exist''\<rparr>
        else \<lparr>got_issue = None, got_resp = Some 500, got_err = Some ''server error''\<rparr>)\<rparr>"

definition example_jira_opts :: jira_FetchOptions where
  "example_jira_opts = \<lparr>jira_URL = ''https://jira.example.com'', jira_Username = ''bot'',
     jira_APIToken = ''secret'', jira_UsePAT = False, jira_DebugMode = False\<rparr>"


section \<open>The chat publisher (internal/slack/slack.go)\<close>

record MessageOptions =
  opt_Token :: string
  opt_Channel :: string
  opt_GithubOwner :: string
  opt_GithubRepo :: string
  opt_JiraURL :: string
  opt_TeamGroup :: string
  opt_MentionUsers :: string
  opt_ReportTitle :: string
  opt_DebugMode :: bool

record PRInfo =
  PRInfo_Number :: int
  PRInfo_Title :: string
  PRInfo_Assignee :: string
  PRInfo_JiraTicket :: string
  PRInfo_JiraStatus :: string
  PRInfo_Description :: string
  PRInfo_IsDraft :: bool
  PRInfo_IsBlocked :: bool

text \<open>
  The chat service as a client made with the configured token sees it. Each field is the answer
  of one call of slack-go; \<open>Inl\<close> and \<open>Some\<close> in the error fields carry the error text.
\<close>

record slack_Channel =
  conv_Name :: string
  conv_ID :: string

record slack_User =
  user_ID :: string
  user_Name :: string
  user_IsBot :: bool
  user_Deleted :: bool

record slack_service =
  AuthTest_err :: "string option"
  GetConversations :: "string list \<Rightarrow> string + slack_Channel list"
  GetUsersInConversation :: "string \<Rightarrow> string + string list"
  GetUserInfo :: "string \<Rightarrow> string + slack_User"
  PostMessage_err :: "string \<Rightarrow> string \<Rightarrow> string option"

text \<open>
  What a run of a sender leaves behind: the returned error (\<open>None\<close> for nil) and the messages
  the service accepted, each with its channel.
\<close>

record send_result =
  send_err :: "string option"
  send_posted :: "(string \<times> string) list"

text \<open>The emoji of the literals, as the UTF-8 bytes of the source file.\<close>

definition emoji_clipboard :: string where
  "emoji_clipboard = [CHR 0xF0, CHR 0x9F, CHR 0x93, CHR 0x8B]"

definition emoji_no_entry :: string where
  "emoji_no_entry = [CHR 0xF0, CHR 0x9F, CHR 0x9A, CHR 0xAB]"

definition emoji_memo :: string where
  "emoji_memo = [CHR 0xF0, CHR 0x9F, CHR 0x93, CHR 0x9D]"

definition emoji_check :: string where
  "emoji_check = [CHR 0xE2, CHR 0x9C, CHR 0x85]"

text \<open>\<^verbatim>\<open>fmt.Sprintf("<https://github.com/%s/%s/pull/%d|PR-%d>", owner, repo, n, n)\<close>.\<close>

definition pr_link :: "string \<Rightarrow> string \<Rightarrow> int \<Rightarrow> string" where
  "pr_link owner repo n =
     ''<https://github.com/'' @ owner @ ''/'' @ repo @ ''/pull/'' @ fmt_d n @ ''|PR-'' @ fmt_d n @ ''>''"

text \<open>Lines 89-99: the entry of one PR in the two summary lists.\<close>

definition track_summary ::
  "MessageOptions \<Rightarrow> PRInfo \<Rightarrow> string list \<times> string list \<Rightarrow> string list \<times> string list" where
  "track_summary opts pr tracked =
     (case tracked of (blockedPRs, draftPRs) \<Rightarrow>
        if PRInfo_IsBlocked pr \<and> PRInfo_IsDraft pr
        then (blockedPRs @ [pr_link (opt_GithubOwner opts) (opt_GithubRepo opts) (PRInfo_Number pr)
                             @ '' (Blocked & Draft)''], draftPRs)
        else if PRInfo_IsBlocked pr
        then (blockedPRs @ [pr_link (opt_GithubOwner opts) (opt_GithubRepo opts) (PRInfo_Number pr)],
              draftPRs)
        else if PRInfo_IsDraft pr
        then (blockedPRs,
              draftPRs @ [pr_link (opt_GithubOwner opts) (opt_GithubRepo opts) (PRInfo_Number pr)])
        else (blockedPRs, draftPRs))"

text \<open>Lines 84-87 and 101-131: the line of the PR at index \<open>i\<close>.\<close>

definition pr_line :: "MessageOptions \<Rightarrow> nat \<Rightarrow> PRInfo \<Rightarrow> string" where
  "pr_line opts i pr =
     (let statusPart = (if PRInfo_JiraStatus pr = [] then ''Unknown'' else PRInfo_JiraStatus pr);
          assigneeText = (if PRInfo_Assignee pr = [] then ''unassigned'' else PRInfo_Assignee pr);
          jiraLink =
            (if PRInfo_JiraTicket pr \<noteq> [] \<and> opt_JiraURL opts \<noteq> []
             then ''<'' @ opt_JiraURL opts @ ''/browse/'' @ PRInfo_JiraTicket pr @ ''|''
                  @ PRInfo_JiraTicket pr @ ''>''
             else if PRInfo_JiraTicket pr = [] then ''N/A''
             else PRInfo_JiraTicket pr);
          description =
            (if PRInfo_Description pr = [] then ''No description'' else PRInfo_Description pr)
      in fmt_d (int i + 1) @ ''. *''
         @ pr_link (opt_GithubOwner opts) (opt_GithubRepo opts) (PRInfo_Number pr)
         @ ''* assigned to '' @ assigneeText @ '' | Jira: '' @ jiraLink @ '' | '' @ description
         @ '' | *'' @ statusPart @ ''*'')"

text \<open>Lines 83-134: the loop over the PRs, with the lines and the two summary lists as state.\<close>

fun report_loop ::
  "MessageOptions \<Rightarrow> nat \<Rightarrow> PRInfo list \<Rightarrow> string list \<times> string list \<times> string list \<Rightarrow>
   string list \<times> string list \<times> string list" where
  "report_loop opts i [] st = st"
| "report_loop opts i (pr # prs) (lines, tracked) =
     report_loop opts (Suc i) prs (lines @ [pr_line opts i pr], track_summary opts pr tracked)"

text \<open>Lines 139-148: the summary of blocked and draft PRs.\<close>

definition summary_lines :: "string list \<Rightarrow> string list \<Rightarrow> string list" where
  "summary_lines blockedPRs draftPRs =
     (if blockedPRs \<noteq> [] \<or> draftPRs \<noteq> []
      then (if blockedPRs \<noteq> [] then [emoji_no_entry @ '' *Blocked:* '' @ Join blockedPRs '', '']
            else [])
           @ (if draftPRs \<noteq> [] then [emoji_memo @ '' *Draft:* '' @ Join draftPRs '', ''] else [])
      else [emoji_check @ '' *Blocked/Draft:* N/A''])"

text \<open>Lines 156-161: the mentions of the user IDs between the commas.\<close>

fun mentions_of :: "string list \<Rightarrow> string list" where
  "mentions_of [] = []"
| "mentions_of (userID # userIDs) =
     (if TrimSpace userID \<noteq> [] then (''<@'' @ TrimSpace userID @ ''>'') # mentions_of userIDs
      else mentions_of userIDs)"

text \<open>Lines 150-169: the closing mention.\<close>

definition mention_lines :: "MessageOptions \<Rightarrow> string list" where
  "mention_lines opts =
     (if opt_MentionUsers opts \<noteq> []
      then [[]] @
           (let mentions = mentions_of (Split (opt_MentionUsers opts) CHR '','')
            in if mentions \<noteq> []
               then [Join mentions '' '' @ '' Please make sure to review these pull requests!'']
               else [])
      else if opt_TeamGroup opts \<noteq> []
      then [[], ''<!subteam^'' @ opt_TeamGroup opts
                @ ''> Please make sure to review these pull requests!'']
      else [])"

text \<open>
  Lines 61-171: the lines of the message and the message, for the date that
  \<^verbatim>\<open>time.Now().Format("2006-01-02")\<close> gave.
\<close>

definition report_lines :: "MessageOptions \<Rightarrow> string \<Rightarrow> PRInfo list \<Rightarrow> string list" where
  "report_lines opts currentDate prs =
     (let dateText = '':date: *'' @ currentDate @ ''*'';
          totalText = '':bar_chart: *Total Open PRs: '' @ fmt_d (int (length prs)) @ ''*'';
          lines0 = (if opt_ReportTitle opts \<noteq> []
                    then [emoji_clipboard @ '' *'' @ opt_ReportTitle opts @ ''*'', []] else [])
                   @ [dateText, [], totalText, []]
      in case report_loop opts 0 prs (lines0, [], []) of
           (lines1, blockedPRs, draftPRs) \<Rightarrow>
             lines1 @ [[]] @ summary_lines blockedPRs draftPRs @ mention_lines opts)"

definition report_message :: "MessageOptions \<Rightarrow> string \<Rightarrow> PRInfo list \<Rightarrow> string" where
  "report_message opts currentDate prs = Join (report_lines opts currentDate prs) [CHR 0x0A]"

text \<open>\<^verbatim>\<open>SendPRReport\<close>, run against a chat service at a given date.\<close>

definition SendPRReport ::
  "slack_service \<Rightarrow> string \<Rightarrow> MessageOptions \<Rightarrow> PRInfo list \<Rightarrow> send_result" where
  "SendPRReport api currentDate opts prs =
     (if opt_Token opts = [] then \<lparr>send_err = Some ''Slack token is required'', send_posted = []\<rparr>
      else if opt_Channel opts = []
      then \<lparr>send_err = Some ''Slack channel is required'', send_posted = []\<rparr>
      else if opt_GithubOwner opts = [] \<or> opt_GithubRepo opts = []
      then \<lparr>send_err = Some ''GitHub owner and repo are required'', send_posted = []\<rparr>
      else case (if opt_DebugMode opts then AuthTest_err api else None) of
        Some e \<Rightarrow> \<lparr>send_err = Some (''Slack authentication failed: '' @ e), send_posted = []\<rparr>
      | None \<Rightarrow>
          (let message = report_message opts currentDate prs
           in case PostMessage_err api (opt_Channel opts) message of
                Some e \<Rightarrow> \<lparr>send_err = Some (''error posting message to Slack: '' @ e),
                            send_posted = []\<rparr>
              | None \<Rightarrow> \<lparr>send_err = None, send_posted = [(opt_Channel opts, message)]\<rparr>))"

text \<open>\<^verbatim>\<open>MapGitHubUserToMention\<close>.\<close>

definition MapGitHubUserToMention :: "(string \<rightharpoonup> string) \<Rightarrow> string \<Rightarrow> string" where
  "MapGitHubUserToMention githubToSlackMap githubUsername =
     (if githubUsername = [] then []
      else case githubToSlackMap githubUsername of
        Some slackUserID \<Rightarrow> ''<@'' @ slackUserID @ ''>''
      | None \<Rightarrow> ''@'' @ githubUsername)"

text \<open>Options and PRs to evaluate the rendering on.\<close>

definition example_opts :: MessageOptions where
  "example_opts =
     \<lparr>opt_Token = ''xoxb-1'', opt_Channel = ''#team'', opt_GithubOwner = ''acme'',
      opt_GithubRepo = ''web'', opt_JiraURL = ''https://jira.example.com'',
      opt_TeamGroup = ''S123'', opt_MentionUsers = ''U1, U2'', opt_ReportTitle = ''Report'',
      opt_DebugMode = False\<rparr>"

definition example_prs :: "PRInfo list" where
  "example_prs =
     [\<lparr>PRInfo_Number = 7, PRInfo_Title = ''Fix login POKER-42'', PRInfo_Assignee = ''<@U1>'',
       PRInfo_JiraTicket = ''POKER-42'', PRInfo_JiraStatus = ''Blocked - Waiting'',
       PRInfo_Description = ''Fix login'', PRInfo_IsDraft = True, PRInfo_IsBlocked = True\<rparr>,
      \<lparr>PRInfo_Number = 8, PRInfo_Title = ''Tidy'', PRInfo_Assignee = [],
       PRInfo_JiraTicket = [], PRInfo_JiraStatus = [],
       PRInfo_Description = ''Tidy'', PRInfo_IsDraft = True, PRInfo_IsBlocked = False\<rparr>]"


section \<open>The code host and the collector (internal/github/github.go)\<close>

text \<open>
  What the program reads of go-github's \<^verbatim>\<open>PullRequest\<close>. Its fields are pointers; \<open>None\<close> is
  nil. The entries of \<^verbatim>\<open>Labels\<close> are taken to be non-nil, their names may be nil.
\<close>

record gh_User =
  gh_Login :: "string option"

record gh_Label =
  gh_Name :: "string option"

record gh_PullRequest =
  gh_Number :: "int option"
  gh_Title :: "string option"
  gh_HTMLURL :: "string option"
  gh_Draft :: "bool option"
  gh_User :: "gh_User option"
  gh_Assignee :: "gh_User option"
  gh_Labels :: "gh_Label list"

record ListOptions =
  Page :: nat
  PerPage :: nat

text \<open>
  The code host as an authenticated client sees it: the answer of \<^verbatim>\<open>Users.Get\<close> for the token's
  own account, and for an owner and a repository either the error of the listing or all its
  open pull requests, in listing order.

  \<^verbatim>\<open>PullRequests.List\<close> answers one call with one page of them: the host's REST interface cuts
  the listing into pages of \<^verbatim>\<open>PerPage\<close> entries (30 when zero, at most 100) and returns the page
  numbered \<^verbatim>\<open>Page\<close>, the first one when \<^verbatim>\<open>Page\<close> is zero; the following pages are fetched by
  further calls with \<^verbatim>\<open>Page\<close> set from the response's \<^verbatim>\<open>NextPage\<close>.
\<close>

record github_service =
  Users_Get :: "string + gh_User"
  open_pulls :: "string \<Rightarrow> string \<Rightarrow> string + gh_PullRequest list"

definition page_size :: "ListOptions \<Rightarrow> nat" where
  "page_size lo = (if PerPage lo = 0 then 30 else min (PerPage lo) 100)"

definition PullRequests_List ::
  "github_service \<Rightarrow> string \<Rightarrow> string \<Rightarrow> ListOptions \<Rightarrow> string + gh_PullRequest list" where
  "PullRequests_List client owner repo lo =
     (case open_pulls client owner repo of
        Inl e \<Rightarrow> Inl e
      | Inr pulls \<Rightarrow> Inr (take (page_size lo) (drop ((Page lo - 1) * page_size lo) pulls)))"

record FetchOptions =
  fo_Token :: string
  fo_Owner :: string
  fo_Repo :: string
  fo_Labels :: "string list"
  fo_AllowedUsers :: "string list"
  fo_DebugMode :: bool

record PRResult =
  PRResult_Number :: int
  PRResult_Title :: string
  PRResult_URL :: string
  PRResult_Assignee :: string
  PRResult_JiraTicket :: string
  PRResult_IsDraft :: bool
  PRResult_Labels :: "string list"
  PRResult_Author :: string

text \<open>How a call ends without a result: with a returned error, or with a nil dereference.\<close>

datatype failure = Err string | Panic

text \<open>\<^verbatim>\<open>pr.User.Login\<close> behind the two nil checks of line 103.\<close>

definition author_of :: "gh_PullRequest \<Rightarrow> string option" where
  "author_of pr = (case gh_User pr of None \<Rightarrow> None | Some u \<Rightarrow> gh_Login u)"

text \<open>
  Lines 89-100: what the debug lines dereference before any nil check: the number, the title,
  the author's login, the draft flag and every label name.
\<close>

definition debug_derefs_ok :: "gh_PullRequest \<Rightarrow> bool" where
  "debug_derefs_ok pr =
     (gh_Number pr \<noteq> None \<and> gh_Title pr \<noteq> None \<and> author_of pr \<noteq> None \<and> gh_Draft pr \<noteq> None \<and>
      list_all (\<lambda>label. gh_Name label \<noteq> None) (gh_Labels pr))"

text \<open>Lines 112-126: the loop over the allowed users, left at the first match.\<close>

fun user_found :: "string list \<Rightarrow> string \<Rightarrow> bool" where
  "user_found [] login = False"
| "user_found (allowedUser # rest) login =
     (if TrimSpace allowedUser = [] then user_found rest login
      else if EqualFold (TrimSpace allowedUser) login then True
      else user_found rest login)"

text \<open>Lines 141-151: the loop over the filter terms for one label name.\<close>

fun label_matches :: "string \<Rightarrow> string list \<Rightarrow> bool" where
  "label_matches name [] = False"
| "label_matches name (filterLabel # rest) =
     (if Contains (ToLower name) (ToLower filterLabel) then True else label_matches name rest)"

text \<open>Lines 138-156: the loop over the labels of the PR.\<close>

fun has_matching_label :: "gh_Label list \<Rightarrow> string list \<Rightarrow> bool" where
  "has_matching_label [] filterLabels = False"
| "has_matching_label (label # rest) filterLabels =
     (case gh_Name label of
        None \<Rightarrow> has_matching_label rest filterLabels
      | Some name \<Rightarrow>
          if label_matches name filterLabels then True else has_matching_label rest filterLabels)"

text \<open>Lines 180-186: the names of the labels that have one.\<close>

fun label_names :: "gh_Label list \<Rightarrow> string list" where
  "label_names [] = []"
| "label_names (label # rest) =
     (case gh_Name label of None \<Rightarrow> label_names rest | Some name \<Rightarrow> name # label_names rest)"

text \<open>
  Lines 167-204: the result for a PR that passed the filters; the number, the title, the URL
  and the draft flag are dereferenced unchecked.
\<close>

definition make_PRResult :: "gh_PullRequest \<Rightarrow> string \<Rightarrow> failure + PRResult" where
  "make_PRResult pr login =
     (case (gh_Number pr, gh_Title pr, gh_HTMLURL pr, gh_Draft pr) of
        (Some number, Some title, Some url, Some draft) \<Rightarrow>
          Inr \<lparr>PRResult_Number = number, PRResult_Title = title, PRResult_URL = url,
               PRResult_Assignee =
                 (case gh_Assignee pr of
                    None \<Rightarrow> []
                  | Some a \<Rightarrow> (case gh_Login a of None \<Rightarrow> [] | Some l \<Rightarrow> l)),
               PRResult_JiraTicket = extract_ticket jiraRegex_github (gh_Title pr),
               PRResult_IsDraft = draft,
               PRResult_Labels = label_names (gh_Labels pr),
               PRResult_Author = login\<rparr>
      | _ \<Rightarrow> Inl Panic)"

text \<open>Lines 88-213: the loop over the listed PRs, with the filtered PRs as state.\<close>

fun FetchPRs_loop ::
  "FetchOptions \<Rightarrow> gh_PullRequest list \<Rightarrow> PRResult list \<Rightarrow> failure + PRResult list" where
  "FetchPRs_loop opts [] filteredPRs = Inr filteredPRs"
| "FetchPRs_loop opts (pr # allPRs) filteredPRs =
     (if fo_DebugMode opts \<and> \<not> debug_derefs_ok pr then Inl Panic
      else case author_of pr of
        None \<Rightarrow> FetchPRs_loop opts allPRs filteredPRs
      | Some login \<Rightarrow>
          if fo_AllowedUsers opts \<noteq> [] \<and> \<not> user_found (fo_AllowedUsers opts) login
          then FetchPRs_loop opts allPRs filteredPRs
          else if fo_Labels opts \<noteq> [] \<and> \<not> has_matching_label (gh_Labels pr) (fo_Labels opts)
          then FetchPRs_loop opts allPRs filteredPRs
          else case make_PRResult pr login of
            Inl f \<Rightarrow> Inl f
          | Inr prResult \<Rightarrow> FetchPRs_loop opts allPRs (filteredPRs @ [prResult]))"

text \<open>Lines 57-64: the check of the authentication, made in debug mode only.\<close>

definition verify_authentication :: "github_service \<Rightarrow> bool \<Rightarrow> failure option" where
  "verify_authentication client debugMode =
     (if debugMode
      then (case Users_Get client of
              Inl e \<Rightarrow> Some (Err (''error verifying GitHub authentication: '' @ e))
            | Inr user \<Rightarrow> (case gh_Login user of None \<Rightarrow> Some Panic | Some _ \<Rightarrow> None))
      else None)"

definition FetchPRs :: "github_service \<Rightarrow> FetchOptions \<Rightarrow> failure + PRResult list" where
  "FetchPRs client opts =
     (if fo_Token opts = [] then Inl (Err ''GitHub token is required'')
      else if fo_Owner opts = [] then Inl (Err ''repository owner is required'')
      else if fo_Repo opts = [] then Inl (Err ''repository name is required'')
      else case verify_authentication client (fo_DebugMode opts) of
        Some f \<Rightarrow> Inl f
      | None \<Rightarrow>
          (case PullRequests_List client (fo_Owner opts) (fo_Repo opts)
                  \<lparr>Page = 0, PerPage = 100\<rparr> of
             Inl e \<Rightarrow>
               Inl (Err (''error fetching PRs from '' @ fo_Owner opts @ ''/'' @ fo_Repo opts
                         @ '': '' @ e))
           | Inr allPRs \<Rightarrow> FetchPRs_loop opts allPRs []))"

text \<open>A pull request with every field set, and listings of such to evaluate the collector on.\<close>

definition simple_pull :: "int \<Rightarrow> string \<Rightarrow> string \<Rightarrow> string list \<Rightarrow> gh_PullRequest" where
  "simple_pull n title login labels =
     \<lparr>gh_Number = Some n, gh_Title = Some title,
      gh_HTMLURL = Some (''https://github.com/acme/web/pull/'' @ fmt_d n),
      gh_Draft = Some False, gh_User = Some \<lparr>gh_Login = Some login\<rparr>, gh_Assignee = None,
      gh_Labels = map (\<lambda>l. \<lparr>gh_Name = Some l\<rparr>) labels\<rparr>"

definition host_with :: "gh_PullRequest list \<Rightarrow> github_service" where
  "host_with pulls =
     \<lparr>Users_Get = Inr \<lparr>gh_Login = Some ''bot''\<rparr>, open_pulls = (\<lambda>owner repo. Inr pulls)\<rparr>"

definition example_fetch_opts :: FetchOptions where
  "example_fetch_opts =
     \<lparr>fo_Token = ''ghp_1'', fo_Owner = ''acme'', fo_Repo = ''web'', fo_Labels = [''poker''],
      fo_AllowedUsers = ['' Alice ''], fo_DebugMode = False\<rparr>"


section \<open>The monolithic reporter (package main)\<close>

text \<open>
  \<^verbatim>\<open>UserMapping\<close> is a Go map. It is modelled as the list of its entries, with distinct keys, in
  the order in which a \<^verbatim>\<open>range\<close> over it yields them (an order Go leaves open).
\<close>

record Config =
  cfg_GithubToken :: string
  cfg_GithubOwner :: string
  cfg_GithubRepo :: string
  cfg_DebugMode :: bool
  cfg_JiraURL :: string
  cfg_JiraUsername :: string
  cfg_JiraAPIToken :: string
  cfg_SlackToken :: string
  cfg_SlackChannel :: string
  cfg_TeamGroup :: string
  cfg_UserMapping :: "(string \<times> string) list"

record PullRequestInfo =
  PullRequestInfo_Number :: int
  PullRequestInfo_Title :: string
  PullRequestInfo_URL :: string
  PullRequestInfo_Assignee :: string
  PullRequestInfo_JiraTicket :: string
  PullRequestInfo_JiraStatus :: string
  PullRequestInfo_JiraStatusID :: string
  PullRequestInfo_Description :: string
  PullRequestInfo_IsDraft :: bool
  PullRequestInfo_IsBlocked :: bool

text \<open>The three remote services and the clock of one run.\<close>

record world =
  chat :: slack_service
  code_host :: github_service
  tracker :: jira_service
  today :: string

subsection \<open>GetSlackChannelUsers\<close>

text \<open>Lines 137-145: the ID of the first conversation with the name, left empty without one.\<close>

fun find_channel :: "slack_Channel list \<Rightarrow> string \<Rightarrow> string" where
  "find_channel [] channelName = []"
| "find_channel (conv # rest) channelName =
     (if conv_Name conv = channelName then conv_ID conv else find_channel rest channelName)"

text \<open>Lines 119-150: the search by conversation type; a failed listing moves on to the next type.\<close>

fun typed_search :: "slack_service \<Rightarrow> string list \<Rightarrow> string \<Rightarrow> string" where
  "typed_search api [] channelName = []"
| "typed_search api (convType # rest) channelName =
     (case GetConversations api [convType] of
        Inl e \<Rightarrow> typed_search api rest channelName
      | Inr conversations \<Rightarrow>
          if find_channel conversations channelName \<noteq> []
          then find_channel conversations channelName
          else typed_search api rest channelName)"

text \<open>Lines 202-236: the loop over the members, with the allowed users and the ID map as state.\<close>

fun members_loop ::
  "slack_service \<Rightarrow> Config \<Rightarrow> string list \<Rightarrow> string list \<times> (string \<rightharpoonup> string) \<Rightarrow>
   string list \<times> (string \<rightharpoonup> string)" where
  "members_loop api config [] st = st"
| "members_loop api config (memberID # rest) (allowedUsers, slackUserMap) =
     (case GetUserInfo api memberID of
        Inl e \<Rightarrow> members_loop api config rest (allowedUsers, slackUserMap)
      | Inr user \<Rightarrow>
          if user_IsBot user \<or> user_Deleted user
          then members_loop api config rest (allowedUsers, slackUserMap)
          else members_loop api config rest
                 (allowedUsers @
                    [case map_of (cfg_UserMapping config) (user_Name user) of
                       Some mappedUser \<Rightarrow> mappedUser
                     | None \<Rightarrow> user_Name user],
                  slackUserMap(user_Name user \<mapsto> user_ID user)))"

definition GetSlackChannelUsers ::
  "slack_service \<Rightarrow> Config \<Rightarrow> string + string list \<times> (string \<rightharpoonup> string)" where
  "GetSlackChannelUsers api config =
     (case (if cfg_DebugMode config then AuthTest_err api else None) of
        Some e \<Rightarrow> Inl (''Slack authentication failed: '' @ e)
      | None \<Rightarrow>
          (let channelName = TrimPrefix (cfg_SlackChannel config) ''#'';
               typed = typed_search api [''public_channel'', ''private_channel''] channelName;
               found =
                 (if typed \<noteq> [] then Inr typed
                  else case GetConversations api [] of
                    Inl e \<Rightarrow>
                      Inl (''error fetching conversations - ensure your bot has ''
                           @ [CHR 0x27] @ ''channels:read'' @ [CHR 0x27] @ '' and ''
                           @ [CHR 0x27] @ ''groups:read'' @ [CHR 0x27] @ '' scopes: '' @ e)
                  | Inr conversations \<Rightarrow> Inr (find_channel conversations channelName))
           in case found of
                Inl e \<Rightarrow> Inl e
              | Inr channelID \<Rightarrow>
                  if channelID = []
                  then Inl (''channel #'' @ channelName @ '' not found. Make sure the bot is added ''
                            @ ''to the channel and has proper permissions ''
                            @ ''(channels:read, groups:read)'')
                  else case GetUsersInConversation api channelID of
                    Inl e \<Rightarrow>
                      Inl (''error fetching channel members - ensure your bot has ''
                           @ [CHR 0x27] @ ''channels:read'' @ [CHR 0x27] @ '' and ''
                           @ [CHR 0x27] @ ''groups:read'' @ [CHR 0x27] @ '' scopes: '' @ e)
                  | Inr members \<Rightarrow> Inr (members_loop api config members ([], Map.empty))))"

subsection \<open>FetchPullRequests\<close>

text \<open>Lines 259-263: the reverse of the user mapping; a later entry overwrites an earlier one.\<close>

fun reverse_mapping ::
  "(string \<times> string) list \<Rightarrow> (string \<rightharpoonup> string) \<Rightarrow> (string \<rightharpoonup> string)" where
  "reverse_mapping [] githubToSlackMap = githubToSlackMap"
| "reverse_mapping ((slackUser, githubUser) # rest) githubToSlackMap =
     reverse_mapping rest (githubToSlackMap(githubUser \<mapsto> slackUser))"

text \<open>Lines 353-365: the search for a label equal to "Poker" up to case.\<close>

fun has_poker_label :: "gh_Label list \<Rightarrow> bool" where
  "has_poker_label [] = False"
| "has_poker_label (label # rest) =
     (case gh_Name label of
        None \<Rightarrow> has_poker_label rest
      | Some name \<Rightarrow> if EqualFold name ''Poker'' then True else has_poker_label rest)"

text \<open>Lines 387-422: the assignee as a mention.\<close>

definition assignee_mention ::
  "(string \<rightharpoonup> string) \<Rightarrow> (string \<rightharpoonup> string) \<Rightarrow> gh_PullRequest \<Rightarrow> string" where
  "assignee_mention githubToSlackMap slackUserMap pr =
     (case (case gh_Assignee pr of None \<Rightarrow> None | Some a \<Rightarrow> gh_Login a) of
        None \<Rightarrow> ''unassigned''
      | Some githubUsername \<Rightarrow>
          (case githubToSlackMap githubUsername of
             Some slackUsername \<Rightarrow>
               (case slackUserMap slackUsername of
                  Some userID \<Rightarrow> ''<@'' @ userID @ ''>''
                | None \<Rightarrow> ''@'' @ slackUsername)
           | None \<Rightarrow>
               (case slackUserMap githubUsername of
                  Some userID \<Rightarrow> ''<@'' @ userID @ ''>''
                | None \<Rightarrow> ''@'' @ githubUsername)))"

text \<open>Lines 374-432: the record of a PR that passed the filters.\<close>

definition make_PullRequestInfo ::
  "(string \<rightharpoonup> string) \<Rightarrow> (string \<rightharpoonup> string) \<Rightarrow> gh_PullRequest \<Rightarrow> failure + PullRequestInfo" where
  "make_PullRequestInfo githubToSlackMap slackUserMap pr =
     (case (gh_Number pr, gh_Title pr, gh_HTMLURL pr, gh_Draft pr) of
        (Some number, Some title, Some url, Some draft) \<Rightarrow>
          Inr \<lparr>PullRequestInfo_Number = number, PullRequestInfo_Title = title,
               PullRequestInfo_URL = url,
               PullRequestInfo_Assignee = assignee_mention githubToSlackMap slackUserMap pr,
               PullRequestInfo_JiraTicket = extract_ticket jiraRegex_main (gh_Title pr),
               PullRequestInfo_JiraStatus = [], PullRequestInfo_JiraStatusID = [],
               PullRequestInfo_Description = [], PullRequestInfo_IsDraft = draft,
               PullRequestInfo_IsBlocked = False\<rparr>
      | _ \<Rightarrow> Inl Panic)"

text \<open>Lines 307-441: the loop over the listed PRs.\<close>

fun FetchPullRequests_loop ::
  "Config \<Rightarrow> string list \<Rightarrow> (string \<rightharpoonup> string) \<Rightarrow> (string \<rightharpoonup> string) \<Rightarrow>
   gh_PullRequest list \<Rightarrow> PullRequestInfo list \<Rightarrow> failure + PullRequestInfo list" where
  "FetchPullRequests_loop config allowedUsers githubToSlackMap slackUserMap [] filteredPRs =
     Inr filteredPRs"
| "FetchPullRequests_loop config allowedUsers githubToSlackMap slackUserMap (pr # allPRs)
     filteredPRs =
     (if cfg_DebugMode config \<and> \<not> debug_derefs_ok pr then Inl Panic
      else case author_of pr of
        None \<Rightarrow>
          FetchPullRequests_loop config allowedUsers githubToSlackMap slackUserMap allPRs
            filteredPRs
      | Some login \<Rightarrow>
          if \<not> user_found allowedUsers login
          then FetchPullRequests_loop config allowedUsers githubToSlackMap slackUserMap allPRs
                 filteredPRs
          else if \<not> has_poker_label (gh_Labels pr)
          then FetchPullRequests_loop config allowedUsers githubToSlackMap slackUserMap allPRs
                 filteredPRs
          else case make_PullRequestInfo githubToSlackMap slackUserMap pr of
            Inl f \<Rightarrow> Inl f
          | Inr prInfo \<Rightarrow>
              FetchPullRequests_loop config allowedUsers githubToSlackMap slackUserMap allPRs
                (filteredPRs @ [prInfo]))"

definition FetchPullRequests :: "world \<Rightarrow> Config \<Rightarrow> (failure + PullRequestInfo list) \<times> log" where
  "FetchPullRequests w config =
     (case GetSlackChannelUsers (chat w) config of
        Inl e \<Rightarrow> (Inl (Err (''error getting Slack channel users: '' @ e)), [])
      | Inr (allowedUsers, slackUserMap) \<Rightarrow>
          if allowedUsers = []
          then (Inr [], [''Warning: No users found in Slack channel, no PRs will be included''])
          else case verify_authentication (code_host w) (cfg_DebugMode config) of
            Some f \<Rightarrow> (Inl f, [])
          | None \<Rightarrow>
              (case PullRequests_List (code_host w) (cfg_GithubOwner config)
                      (cfg_GithubRepo config) \<lparr>Page = 0, PerPage = 100\<rparr> of
                 Inl e \<Rightarrow> (Inl (Err (''error fetching PRs: '' @ e)), [])
               | Inr allPRs \<Rightarrow>
                   (FetchPullRequests_loop config allowedUsers
                      (reverse_mapping (cfg_UserMapping config) Map.empty) slackUserMap allPRs [],
                    [])))"

subsection \<open>UpdateJiraInfo\<close>

text \<open>Lines 545-572: the two checks that set the blocked flag of a PR.\<close>

definition pr_check_status :: "string option \<Rightarrow> PullRequestInfo \<Rightarrow> PullRequestInfo" where
  "pr_check_status st pr =
     (case st of
        None \<Rightarrow> pr
      | Some name \<Rightarrow>
          if name \<noteq> [] \<and> contains_blocking_word (ToLower name)
          then pr\<lparr>PullRequestInfo_IsBlocked := True\<rparr> else pr)"

fun pr_check_labels :: "string list \<Rightarrow> PullRequestInfo \<Rightarrow> PullRequestInfo" where
  "pr_check_labels [] pr = pr"
| "pr_check_labels (label # labels) pr =
     (if contains_blocking_word (ToLower label) then pr\<lparr>PullRequestInfo_IsBlocked := True\<rparr>
      else pr_check_labels labels pr)"

text \<open>Lines 497-582: one round of the loop: the PR after it and the lines it logs.\<close>

definition update_pr ::
  "jira_service \<Rightarrow> jira_client \<Rightarrow> PullRequestInfo \<Rightarrow> PullRequestInfo \<times> log" where
  "update_pr srv jiraClient pr =
     (if PullRequestInfo_JiraTicket pr = [] then (pr, [])
      else let g = Issue_Get srv jiraClient (PullRequestInfo_JiraTicket pr)
           in case got_err g of
                Some e \<Rightarrow>
                  if got_resp g = Some 404
                  then (pr\<lparr>PullRequestInfo_JiraStatus := ''Not Found''\<rparr>,
                        [''Warning: JIRA ticket '' @ PullRequestInfo_JiraTicket pr
                         @ '' not found (PR #'' @ fmt_d (PullRequestInfo_Number pr) @ '')''])
                  else (pr\<lparr>PullRequestInfo_JiraStatus := ''Error''\<rparr>,
                        [''Error fetching JIRA ticket '' @ PullRequestInfo_JiraTicket pr
                         @ '': '' @ e])
              | None \<Rightarrow>
                  (case (case got_issue g of None \<Rightarrow> None | Some i \<Rightarrow> Fields i) of
                     None \<Rightarrow> (pr\<lparr>PullRequestInfo_JiraStatus := ''No Data''\<rparr>, [])
                   | Some f \<Rightarrow>
                       (let p1 = (case Fields_Status f of
                                    None \<Rightarrow> pr\<lparr>PullRequestInfo_JiraStatus := ''No Status''\<rparr>
                                  | Some name \<Rightarrow>
                                      if name \<noteq> [] then pr\<lparr>PullRequestInfo_JiraStatus := name\<rparr>
                                      else pr\<lparr>PullRequestInfo_JiraStatus := ''No Status''\<rparr>);
                            p2 = (if Fields_Summary f \<noteq> []
                                  then p1\<lparr>PullRequestInfo_Description := Fields_Summary f\<rparr>
                                  else p1\<lparr>PullRequestInfo_Description := ''No Description''\<rparr>)
                        in (pr_check_labels (Fields_Labels f)
                              (pr_check_status (Fields_Status f) p2), []))))"

fun update_loop ::
  "jira_service \<Rightarrow> jira_client \<Rightarrow> PullRequestInfo list \<Rightarrow> PullRequestInfo list \<times> log" where
  "update_loop srv jiraClient [] = ([], [])"
| "update_loop srv jiraClient (pr # prs) =
     (case update_pr srv jiraClient pr of
        (pr', lg) \<Rightarrow>
          (case update_loop srv jiraClient prs of (prs', lg') \<Rightarrow> (pr' # prs', lg @ lg')))"

text \<open>
  \<^verbatim>\<open>UpdateJiraInfo\<close> changes the PRs in place and returns a nil error on every path; the model
  returns the PRs after the call and the lines logged.
\<close>

definition UpdateJiraInfo ::
  "jira_service \<Rightarrow> Config \<Rightarrow> PullRequestInfo list \<Rightarrow> (PullRequestInfo list \<times> string option) \<times> log" where
  "UpdateJiraInfo srv config prs =
     (if \<not> list_ex (\<lambda>pr. PullRequestInfo_JiraTicket pr \<noteq> []) prs then ((prs, None), [])
      else if cfg_JiraUsername config = [] \<or> cfg_JiraAPIToken config = [] \<or> cfg_JiraURL config = []
      then ((prs, None),
            [''Warning: JIRA credentials not fully configured, JIRA status will show as ''
             @ [CHR 0x27] @ ''Unknown'' @ [CHR 0x27]])
      else case NewClient_err srv (cfg_JiraURL config) of
        Some e \<Rightarrow> ((prs, None), [''Error creating JIRA client: '' @ e])
      | None \<Rightarrow>
          (let jiraClient =
                 \<lparr>client_auth = BasicAuth (cfg_JiraUsername config) (cfg_JiraAPIToken config),
                  client_URL = cfg_JiraURL config\<rparr>
           in if cfg_DebugMode config \<and> GetSelf_err srv jiraClient \<noteq> None then ((prs, None), [])
              else case update_loop srv jiraClient prs of (prs', lg) \<Rightarrow> ((prs', None), lg)))"

subsection \<open>SendSlackMessage\<close>

text \<open>
  The emoji of the three footer literals are stored in the source file in a damaged encoding;
  these are its bytes.
\<close>

definition main_emoji_blocked :: string where
  "main_emoji_blocked =
     [CHR 0xEF, CHR 0xA3, CHR 0xBF, CHR 0xC3, CHR 0xBC, CHR 0xC3, CHR 0xB6, CHR 0xC2, CHR 0xB4]"

definition main_emoji_draft :: string where
  "main_emoji_draft =
     [CHR 0xEF, CHR 0xA3, CHR 0xBF, CHR 0xC3, CHR 0xBC, CHR 0xC3, CHR 0xAC, CHR 0xC3, CHR 0xB9]"

definition main_emoji_check :: string where
  "main_emoji_check = [CHR 0xE2, CHR 0x80, CHR 0x9A, CHR 0xC3, CHR 0xBA, CHR 0xC3, CHR 0x96]"

text \<open>Lines 613-623: the entry of one PR in the two summary lists.\<close>

definition main_track_summary ::
  "Config \<Rightarrow> PullRequestInfo \<Rightarrow> string list \<times> string list \<Rightarrow> string list \<times> string list" where
  "main_track_summary config pr tracked =
     (case tracked of (blockedPRs, draftPRs) \<Rightarrow>
        if PullRequestInfo_IsBlocked pr \<and> PullRequestInfo_IsDraft pr
        then (blockedPRs @ [pr_link (cfg_GithubOwner config) (cfg_GithubRepo config)
                              (PullRequestInfo_Number pr) @ '' (Blocked & Draft)''], draftPRs)
        else if PullRequestInfo_IsBlocked pr
        then (blockedPRs @ [pr_link (cfg_GithubOwner config) (cfg_GithubRepo config)
                              (PullRequestInfo_Number pr)], draftPRs)
        else if PullRequestInfo_IsDraft pr
        then (blockedPRs,
              draftPRs @ [pr_link (cfg_GithubOwner config) (cfg_GithubRepo config)
                            (PullRequestInfo_Number pr)])
        else (blockedPRs, draftPRs))"

text \<open>Lines 608-611 and 625-636: the line of the PR at index \<open>i\<close>.\<close>

definition main_pr_line :: "Config \<Rightarrow> nat \<Rightarrow> PullRequestInfo \<Rightarrow> string" where
  "main_pr_line config i pr =
     (let statusPart = (if PullRequestInfo_JiraStatus pr = [] then ''Unknown''
                        else PullRequestInfo_JiraStatus pr)
      in fmt_d (int i + 1) @ ''. *''
         @ pr_link (cfg_GithubOwner config) (cfg_GithubRepo config) (PullRequestInfo_Number pr)
         @ ''* assigned to '' @ PullRequestInfo_Assignee pr @ '' | Jira: <''
         @ cfg_JiraURL config @ ''/browse/'' @ PullRequestInfo_JiraTicket pr @ ''|''
         @ PullRequestInfo_JiraTicket pr @ ''> | '' @ PullRequestInfo_Description pr
         @ '' | *'' @ statusPart @ ''*'')"

fun main_report_loop ::
  "Config \<Rightarrow> nat \<Rightarrow> PullRequestInfo list \<Rightarrow> string list \<times> string list \<times> string list \<Rightarrow>
   string list \<times> string list \<times> string list" where
  "main_report_loop config i [] st = st"
| "main_report_loop config i (pr # prs) (lines, tracked) =
     main_report_loop config (Suc i) prs
       (lines @ [main_pr_line config i pr], main_track_summary config pr tracked)"

text \<open>Lines 644-653: the summary of blocked and draft PRs.\<close>

definition main_summary_lines :: "string list \<Rightarrow> string list \<Rightarrow> string list" where
  "main_summary_lines blockedPRs draftPRs =
     (if blockedPRs \<noteq> [] \<or> draftPRs \<noteq> []
      then (if blockedPRs \<noteq> []
            then [main_emoji_blocked @ '' *Blocked:* '' @ Join blockedPRs '', ''] else [])
           @ (if draftPRs \<noteq> []
              then [main_emoji_draft @ '' *Draft:* '' @ Join draftPRs '', ''] else [])
      else [main_emoji_check @ '' *Blocked/Draft:* N/A''])"

text \<open>Lines 592-659: the lines of the message.\<close>

definition main_report_lines :: "Config \<Rightarrow> string \<Rightarrow> PullRequestInfo list \<Rightarrow> string list" where
  "main_report_lines config currentDate prs =
     (let dateText = '':date: *'' @ currentDate @ ''*'';
          totalText = '':bar_chart: *Total Open PRs: '' @ fmt_d (int (length prs)) @ ''*''
      in case main_report_loop config 0 prs ([dateText, [], totalText, []], [], []) of
           (lines1, blockedPRs, draftPRs) \<Rightarrow>
             lines1 @ [[]] @ main_summary_lines blockedPRs draftPRs
             @ [[], ''<!subteam^'' @ cfg_TeamGroup config
                    @ ''> Please make sure to review these pull requests!''])"

definition SendSlackMessage ::
  "slack_service \<Rightarrow> string \<Rightarrow> Config \<Rightarrow> PullRequestInfo list \<Rightarrow> send_result" where
  "SendSlackMessage api currentDate config prs =
     (let message = Join (main_report_lines config currentDate prs) [CHR 0x0A]
      in case PostMessage_err api (cfg_SlackChannel config) message of
           Some e \<Rightarrow> \<lparr>send_err = Some e, send_posted = []\<rparr>
         | None \<Rightarrow> \<lparr>send_err = None, send_posted = [(cfg_SlackChannel config, message)]\<rparr>)"

subsection \<open>RunReport\<close>

record run_result =
  run_err :: "failure option"
  run_log :: log
  run_posted :: "(string \<times> string) list"

definition RunReport :: "world \<Rightarrow> Config \<Rightarrow> run_result" where
  "RunReport w config =
     (case FetchPullRequests w config of
        (Inl Panic, lg) \<Rightarrow>
          \<lparr>run_err = Some Panic, run_log = [''Starting PR report generation...''] @ lg,
           run_posted = []\<rparr>
      | (Inl (Err e), lg) \<Rightarrow>
          \<lparr>run_err = Some (Err (''error fetching pull requests: '' @ e)),
           run_log = [''Starting PR report generation...''] @ lg, run_posted = []\<rparr>
      | (Inr prs, lg) \<Rightarrow>
          (case UpdateJiraInfo (tracker w) config prs of
             ((prs', err), lg') \<Rightarrow>
               (let lg1 = [''Starting PR report generation...''] @ lg
                          @ [''Found '' @ fmt_d (int (length prs)) @ '' PRs matching criteria'']
                          @ lg'
                          @ (case err of
                               None \<Rightarrow> []
                             | Some e \<Rightarrow> [''Warning: Error updating JIRA info: '' @ e]);
                    sent = SendSlackMessage (chat w) (today w) config prs'
                in case send_err sent of
                     Some e \<Rightarrow>
                       \<lparr>run_err = Some (Err (''error sending Slack message: '' @ e)),
                        run_log = lg1, run_posted = send_posted sent\<rparr>
                   | None \<Rightarrow>
                       \<lparr>run_err = None, run_log = lg1 @ [''PR report sent successfully!''],
                        run_posted = send_posted sent\<rparr>)))"


section \<open>Properties of the ticket pattern\<close>

lemma lower_char_add32:
  "is_upper c \<Longrightarrow> (of_char (lower_char c) :: nat) = of_char c + 32"
proof (cases c)
  case (Char b0 b1 b2 b3 b4 b5 b6 b7)
  assume "is_upper c"
  then show ?thesis
    unfolding Char
    by (cases b0; cases b1; cases b2; cases b3; cases b4; cases b5; cases b6; cases b7)
       (simp_all add: is_upper_def)
qed


lemma HasPrefix_append: "HasPrefix s p \<longleftrightarrow> (\<exists>r. s = p @ r)"
  unfolding HasPrefix_def
  by (metis append_eq_conv_conj append_take_drop_id)

lemma matches_pattern_iff:
  "matches_pattern pre m \<longleftrightarrow> (\<exists>ds. m = pre @ ds \<and> ds \<noteq> [] \<and> list_all is_digit ds)"
  unfolding matches_pattern_def HasPrefix_append by auto

lemma match_here_Some:
  assumes "match_here pre s = Some m"
  shows "\<exists>a. s = m @ a \<and> matches_pattern pre m \<and> (a = [] \<or> \<not> is_digit (hd a))"
proof -
  from assms obtain r where s: "s = pre @ r" and r: "takeWhile is_digit r \<noteq> []"
    and m: "m = pre @ takeWhile is_digit r"
    by (auto simp: match_here_def HasPrefix_append Let_def split: if_splits)
  have "s = m @ dropWhile is_digit r" by (simp add: s m)
  moreover have "matches_pattern pre m"
    unfolding matches_pattern_iff using r m
    by (metis list_all_iff set_takeWhileD)
  moreover have "dropWhile is_digit r = [] \<or> \<not> is_digit (hd (dropWhile is_digit r))"
    using hd_dropWhile by blast
  ultimately show ?thesis by blast
qed

lemma match_here_None:
  assumes "match_here pre s = None"
  shows "\<not> (\<exists>m a. s = m @ a \<and> matches_pattern pre m)"
proof
  assume "\<exists>m a. s = m @ a \<and> matches_pattern pre m"
  then obtain ds a where s: "s = pre @ ds @ a" and ds: "ds \<noteq> []" "list_all is_digit ds"
    unfolding matches_pattern_iff by auto
  from ds obtain d ds' where d: "ds = d # ds'" "is_digit d" by (cases ds) auto
  have "HasPrefix s pre" unfolding HasPrefix_append using s by blast
  moreover have "takeWhile is_digit (drop (length pre) s) \<noteq> []"
    using s d by simp
  ultimately show False using assms by (simp add: match_here_def Let_def)
qed

lemma match_here_longest:
  assumes "match_here pre s = Some m" and "s = m' @ a'" and "matches_pattern pre m'"
  shows "length m' \<le> length m"
proof -
  from assms(1) obtain r where s: "s = pre @ r" and m: "m = pre @ takeWhile is_digit r"
    by (auto simp: match_here_def HasPrefix_append Let_def split: if_splits)
  from assms(3) obtain ds where m': "m' = pre @ ds" and ds: "list_all is_digit ds"
    unfolding matches_pattern_iff by auto
  from s assms(2) m' have r: "r = ds @ a'" by simp
  have "takeWhile is_digit r = ds @ takeWhile is_digit a'"
    unfolding r using ds by (simp add: takeWhile_append2 list_all_iff)
  then show ?thesis by (simp add: m m')
qed

lemma match_here_self:
  assumes "matches_pattern pre m"
  shows "match_here pre m = Some m"
proof -
  from assms obtain ds where m: "m = pre @ ds" and ds: "ds \<noteq> []" "list_all is_digit ds"
    unfolding matches_pattern_iff by auto
  have tw: "takeWhile is_digit ds = ds" using ds(2) by (simp add: list_all_iff)
  show ?thesis using ds(1) by (simp add: match_here_def HasPrefix_append m tw)
qed

lemma Find_self:
  assumes "matches_pattern pre m"
  shows "FindStringSubmatch pre m = [m]"
proof (cases m)
  case Nil
  then show ?thesis using assms by (simp add: matches_pattern_def)
next
  case (Cons c cs)
  then show ?thesis using match_here_self [OF assms] by simp
qed

lemma Find_Nil:
  "FindStringSubmatch pre t = [] \<Longrightarrow> t = b @ m @ a \<Longrightarrow> \<not> matches_pattern pre m"
proof (induction t arbitrary: b)
  case Nil
  then show ?case by (auto simp: matches_pattern_def)
next
  case (Cons c cs)
  from Cons.prems(1) have none: "match_here pre (c # cs) = None"
    and rest: "FindStringSubmatch pre cs = []"
    by (auto split: option.splits)
  show ?case
  proof (cases b)
    case Nil
    with Cons.prems(2) match_here_None [OF none] show ?thesis by auto
  next
    case (Cons c' b')
    with Cons.prems(2) have "cs = b' @ m @ a" by simp
    with Cons.IH [OF rest] show ?thesis by blast
  qed
qed

lemma Find_Cons:
  "FindStringSubmatch pre t = m # ms \<Longrightarrow>
     ms = [] \<and> (\<exists>b a. t = b @ m @ a \<and> matches_pattern pre m \<and>
       (\<forall>b' m' a'. t = b' @ m' @ a' \<and> matches_pattern pre m' \<longrightarrow>
          length b \<le> length b' \<and> (length b' = length b \<longrightarrow> length m' \<le> length m)))"
proof (induction t)
  case Nil
  then show ?case by (auto simp: match_here_def HasPrefix_def Let_def split: if_splits)
next
  case (Cons c cs)
  show ?case
  proof (cases "match_here pre (c # cs)")
    case (Some m0)
    with Cons.prems have m0: "m0 = m" and ms: "ms = []" by auto
    from match_here_Some [OF Some] obtain a where a: "c # cs = m @ a" "matches_pattern pre m"
      unfolding m0 by blast
    have "\<forall>b' m' a'. c # cs = b' @ m' @ a' \<and> matches_pattern pre m' \<longrightarrow>
          length [] \<le> length b' \<and> (length b' = length ([]::string) \<longrightarrow> length m' \<le> length m)"
      using match_here_longest [OF Some [unfolded m0]] by auto
    with a ms show ?thesis by (metis append_Nil)
  next
    case None
    with Cons.prems have rest: "FindStringSubmatch pre cs = m # ms" by simp
    from Cons.IH [OF rest] obtain b a where ms: "ms = []" and cs: "cs = b @ m @ a"
      and mm: "matches_pattern pre m"
      and left: "\<And>b' m' a'. cs = b' @ m' @ a' \<Longrightarrow> matches_pattern pre m' \<Longrightarrow>
          length b \<le> length b' \<and> (length b' = length b \<longrightarrow> length m' \<le> length m)"
      by blast
    have "length (c # b) \<le> length b' \<and> (length b' = length (c # b) \<longrightarrow> length m' \<le> length m)"
      if t: "c # cs = b' @ m' @ a'" and m': "matches_pattern pre m'" for b' m' a'
    proof (cases b')
      case Nil
      with t m' match_here_None [OF None] show ?thesis by auto
    next
      case (Cons c' b'')
      with t have "cs = b'' @ m' @ a'" by simp
      from left [OF this m'] show ?thesis by (simp add: Cons)
    qed
    moreover have "c # cs = (c # b) @ m @ a" using cs by simp
    ultimately show ?thesis using ms mm by blast
  qed
qed


text \<open>
  C7. Extracting the ticket identifier from a title is total and idempotent. For every title
  the result is either empty, and then no part of the title matches the pattern, or it is the
  first match: it matches the pattern, it occurs in the title, no match starts further left, and
  no match at the same place is longer. The result is a plain string (there is no error
  branch), and extracting from the result gives the result again.
\<close>

theorem extract_ticket_total_idempotent:
  "((extract_ticket jiraRegex_github (Some title) = [] \<and>
       (\<forall>b m a. title = b @ m @ a \<longrightarrow> \<not> matches_pattern jiraRegex_github m))
     \<or> (\<exists>b a. title = b @ extract_ticket jiraRegex_github (Some title) @ a \<and>
           matches_pattern jiraRegex_github (extract_ticket jiraRegex_github (Some title)) \<and>
           (\<forall>b' m' a'. title = b' @ m' @ a' \<and> matches_pattern jiraRegex_github m' \<longrightarrow>
              length b \<le> length b' \<and>
              (length b' = length b \<longrightarrow>
                 length m' \<le> length (extract_ticket jiraRegex_github (Some title))))))
   \<and> extract_ticket jiraRegex_github (Some (extract_ticket jiraRegex_github (Some title)))
       = extract_ticket jiraRegex_github (Some title)"
proof (cases "FindStringSubmatch jiraRegex_github title")
  case Nil
  then have r: "extract_ticket jiraRegex_github (Some title) = []"
    by (simp add: extract_ticket_def)
  have "\<forall>b m a. title = b @ m @ a \<longrightarrow> \<not> matches_pattern jiraRegex_github m"
    using Find_Nil [OF Nil] by blast
  moreover have "extract_ticket jiraRegex_github (Some []) = []"
    by (simp add: extract_ticket_def match_here_def HasPrefix_def jiraRegex_github_def)
  ultimately show ?thesis unfolding r by blast
next
  case (Cons m ms)
  then have r: "extract_ticket jiraRegex_github (Some title) = m"
    by (simp add: extract_ticket_def)
  from Find_Cons [OF Cons] obtain b a where *: "title = b @ m @ a"
    "matches_pattern jiraRegex_github m"
    "\<forall>b' m' a'. title = b' @ m' @ a' \<and> matches_pattern jiraRegex_github m' \<longrightarrow>
       length b \<le> length b' \<and> (length b' = length b \<longrightarrow> length m' \<le> length m)"
    by blast
  have "extract_ticket jiraRegex_github (Some m) = m"
    using Find_self [OF *(2)] by (simp add: extract_ticket_def)
  with * show ?thesis unfolding r by blast
qed

theorem extract_ticket_total_idempotent_witness:
  "extract_ticket jiraRegex_github (Some ''Fix login bug POKER-42'') = ''POKER-42'' \<and>
   matches_pattern jiraRegex_github ''POKER-42'' \<and>
   extract_ticket jiraRegex_github (Some ''POKER-42'') = ''POKER-42'' \<and>
   extract_ticket jiraRegex_github (Some ''Fix login bug'') = []"
  using extract_ticket_total_idempotent [of "''Fix login bug POKER-42''"]
  by (simp add: extract_ticket_def jiraRegex_github_def match_here_def matches_pattern_def
      HasPrefix_def is_digit_def)


section \<open>Properties of the issue-tracker lookups\<close>






lemma check_status_other:
  "TicketID (check_status st t) = TicketID t \<and> Status (check_status st t) = Status t \<and>
   Summary (check_status st t) = Summary t"
  by (simp add: check_status_def split: option.splits)

lemma check_labels_other:
  "TicketID (check_labels ls t) = TicketID t \<and> Status (check_labels ls t) = Status t \<and>
   Summary (check_labels ls t) = Summary t"
  by (induction ls) auto






lemma FetchTicketsInfo_loop_results:
  "fst (FetchTicketsInfo_loop srv opts ids (results, lg)) ticketID =
     (if ticketID \<in> set ids \<and> ticketID \<noteq> []
      then Some (case FetchTicketInfo srv opts ticketID of
                   Inl err \<Rightarrow> \<lparr>TicketID = ticketID, Status = ''Error'',
                                Summary = ''Error: '' @ err, IsBlocked = False\<rparr>
                 | Inr ticketInfo \<Rightarrow> ticketInfo)
      else results ticketID)"
proof (induction ids arbitrary: results lg)
  case Nil
  show ?case by simp
next
  case (Cons i ids)
  show ?case
  proof (cases "i = []")
    case True
    then show ?thesis using Cons.IH by auto
  next
    case False
    show ?thesis
    proof (cases "FetchTicketInfo srv opts i")
      case (Inl err)
      then show ?thesis using False Cons.IH by auto
    next
      case (Inr t)
      then show ?thesis using False Cons.IH by auto
    qed
  qed
qed

lemma FetchTicketsInfo_results:
  "fst (fst (FetchTicketsInfo srv opts ids)) ticketID =
     (if ticketID \<in> set ids \<and> ticketID \<noteq> []
      then Some (case FetchTicketInfo srv opts ticketID of
                   Inl err \<Rightarrow> \<lparr>TicketID = ticketID, Status = ''Error'',
                                Summary = ''Error: '' @ err, IsBlocked = False\<rparr>
                 | Inr ticketInfo \<Rightarrow> ticketInfo)
      else None)"
  using FetchTicketsInfo_loop_results [of srv opts ids Map.empty "[]" ticketID]
  by (simp add: FetchTicketsInfo_def case_prod_beta)

lemma FetchTicketsInfo_no_error: "snd (fst (FetchTicketsInfo srv opts ids)) = None"
  by (simp add: FetchTicketsInfo_def case_prod_beta)

lemma FetchTicketInfo_404:
  assumes "ticketID \<noteq> []" "\<not> jira_credentials_missing opts"
    "NewClient_err srv (jira_URL opts) = None"
    "got_err (Issue_Get srv (jira_make_client opts) ticketID) = Some e"
    "got_resp (Issue_Get srv (jira_make_client opts) ticketID) = Some 404"
  shows "FetchTicketInfo srv opts ticketID =
           Inr \<lparr>TicketID = ticketID, Status = ''Not Found'', Summary = ''Ticket not found'',
                IsBlocked = False\<rparr>"
  using assms by (simp add: FetchTicketInfo_def Let_def)

lemma FetchTicketInfo_failure:
  assumes "ticketID \<noteq> []" "\<not> jira_credentials_missing opts"
    "NewClient_err srv (jira_URL opts) = None"
    "got_err (Issue_Get srv (jira_make_client opts) ticketID) = Some e"
    "got_resp (Issue_Get srv (jira_make_client opts) ticketID) \<noteq> Some 404"
  shows "FetchTicketInfo srv opts ticketID =
           Inl (''error fetching JIRA ticket '' @ ticketID @ '': '' @ e)"
  using assms by (simp add: FetchTicketInfo_def Let_def)

text \<open>
  C5. The batch lookup never returns an error, and its result map holds, for every non-empty
  identifier of the list, exactly what the lookup of that identifier alone gives: the ticket, or
  a Ticket Info with status "Error" whose summary is the error text behind the prefix "Error: ".
  No other identifier takes part in an entry. A lookup answered by an error with status code
  404 gives status "Not Found"; a lookup answered by any other error gives status "Error".
\<close>

theorem FetchTicketsInfo_failure_isolation:
  "snd (fst (FetchTicketsInfo srv opts ticketIDs)) = None \<and>
   (\<forall>ticketID.
      fst (fst (FetchTicketsInfo srv opts ticketIDs)) ticketID =
        (if ticketID \<in> set ticketIDs \<and> ticketID \<noteq> []
         then Some (case FetchTicketInfo srv opts ticketID of
                      Inl err \<Rightarrow> \<lparr>TicketID = ticketID, Status = ''Error'',
                                   Summary = ''Error: '' @ err, IsBlocked = False\<rparr>
                    | Inr ticketInfo \<Rightarrow> ticketInfo)
         else None)) \<and>
   (\<forall>ticketID e.
      ticketID \<in> set ticketIDs \<and> ticketID \<noteq> [] \<and> \<not> jira_credentials_missing opts \<and>
      NewClient_err srv (jira_URL opts) = None \<and>
      got_err (Issue_Get srv (jira_make_client opts) ticketID) = Some e \<longrightarrow>
        fst (fst (FetchTicketsInfo srv opts ticketIDs)) ticketID =
          Some (if got_resp (Issue_Get srv (jira_make_client opts) ticketID) = Some 404
                then \<lparr>TicketID = ticketID, Status = ''Not Found'',
                       Summary = ''Ticket not found'', IsBlocked = False\<rparr>
                else \<lparr>TicketID = ticketID, Status = ''Error'',
                       Summary = ''Error: '' @ ''error fetching JIRA ticket '' @ ticketID @ '': '' @ e,
                       IsBlocked = False\<rparr>))"
proof (intro conjI allI impI)
  show "snd (fst (FetchTicketsInfo srv opts ticketIDs)) = None"
    by (rule FetchTicketsInfo_no_error)
next
  fix ticketID
  show "fst (fst (FetchTicketsInfo srv opts ticketIDs)) ticketID =
        (if ticketID \<in> set ticketIDs \<and> ticketID \<noteq> []
         then Some (case FetchTicketInfo srv opts ticketID of
                      Inl err \<Rightarrow> \<lparr>TicketID = ticketID, Status = ''Error'',
                                   Summary = ''Error: '' @ err, IsBlocked = False\<rparr>
                    | Inr ticketInfo \<Rightarrow> ticketInfo)
         else None)"
    by (rule FetchTicketsInfo_results)
next
  fix ticketID e
  assume a: "ticketID \<in> set ticketIDs \<and> ticketID \<noteq> [] \<and> \<not> jira_credentials_missing opts \<and>
      NewClient_err srv (jira_URL opts) = None \<and>
      got_err (Issue_Get srv (jira_make_client opts) ticketID) = Some e"
  show "fst (fst (FetchTicketsInfo srv opts ticketIDs)) ticketID =
          Some (if got_resp (Issue_Get srv (jira_make_client opts) ticketID) = Some 404
                then \<lparr>TicketID = ticketID, Status = ''Not Found'',
                       Summary = ''Ticket not found'', IsBlocked = False\<rparr>
                else \<lparr>TicketID = ticketID, Status = ''Error'',
                       Summary = ''Error: '' @ ''error fetching JIRA ticket '' @ ticketID @ '': '' @ e,
                       IsBlocked = False\<rparr>)"
  proof (cases "got_resp (Issue_Get srv (jira_make_client opts) ticketID) = Some 404")
    case True
    with a FetchTicketInfo_404 [of ticketID opts srv e] show ?thesis
      by (simp add: FetchTicketsInfo_results)
  next
    case False
    with a FetchTicketInfo_failure [of ticketID opts srv e] show ?thesis
      by (simp add: FetchTicketsInfo_results)
  qed
qed

theorem FetchTicketsInfo_failure_isolation_witness:
  "snd (fst (FetchTicketsInfo example_tracker example_jira_opts [''POKER-42'', [], ''POKER-404'', ''POKER-1''])) = None \<and>
   fst (fst (FetchTicketsInfo example_tracker example_jira_opts [''POKER-42'', [], ''POKER-404'', ''POKER-1''])) ''POKER-404'' =
     Some \<lparr>TicketID = ''POKER-404'', Status = ''Not Found'', Summary = ''Ticket not found'',
           IsBlocked = False\<rparr> \<and>
   fst (fst (FetchTicketsInfo example_tracker example_jira_opts [''POKER-42'', [], ''POKER-404'', ''POKER-1''])) ''POKER-1'' =
     Some \<lparr>TicketID = ''POKER-1'', Status = ''Error'',
           Summary = ''Error: error fetching JIRA ticket POKER-1: server error'',
           IsBlocked = False\<rparr> \<and>
   fst (fst (FetchTicketsInfo example_tracker example_jira_opts [''POKER-42'', [], ''POKER-404'', ''POKER-1''])) ''POKER-42'' =
     Some \<lparr>TicketID = ''POKER-42'', Status = ''Blocked - Waiting'', Summary = ''Fix login'',
           IsBlocked = True\<rparr>"
proof -
  note t = FetchTicketsInfo_failure_isolation
    [of example_tracker example_jira_opts "[''POKER-42'', [], ''POKER-404'', ''POKER-1'']"]
  have h: "\<not> jira_credentials_missing example_jira_opts" "NewClient_err example_tracker (jira_URL example_jira_opts) = None"
    by (simp_all add: jira_credentials_missing_def example_jira_opts_def example_tracker_def)
  have g1: "got_err (Issue_Get example_tracker (jira_make_client example_jira_opts) ''POKER-404'') = Some ''Issue does not exist''"
    "got_resp (Issue_Get example_tracker (jira_make_client example_jira_opts) ''POKER-404'') = Some 404"
    by (simp_all add: example_tracker_def)
  have g2: "got_err (Issue_Get example_tracker (jira_make_client example_jira_opts) ''POKER-1'') = Some ''server error''"
    "got_resp (Issue_Get example_tracker (jira_make_client example_jira_opts) ''POKER-1'') \<noteq> Some 404"
    by (simp_all add: example_tracker_def)
  have g3: "FetchTicketInfo example_tracker example_jira_opts ''POKER-42'' =
     Inr \<lparr>TicketID = ''POKER-42'', Status = ''Blocked - Waiting'', Summary = ''Fix login'',
          IsBlocked = True\<rparr>"
    by (simp add: example_tracker_def example_jira_opts_def jira_credentials_missing_def FetchTicketInfo_def
      jira_make_client_def ticket_of_issue_def status_and_summary_def check_status_def
      contains_blocking_word_def ToLower_def is_upper_def HasPrefix_def)
  let ?ids = "[''POKER-42'', [], ''POKER-404'', ''POKER-1'']"
  from t have a: "snd (fst (FetchTicketsInfo example_tracker example_jira_opts ?ids)) = None"
    by (rule conjunct1)
  from t have t2: "\<And>ticketID.
      fst (fst (FetchTicketsInfo example_tracker example_jira_opts ?ids)) ticketID =
        (if ticketID \<in> set ?ids \<and> ticketID \<noteq> []
         then Some (case FetchTicketInfo example_tracker example_jira_opts ticketID of
                      Inl err \<Rightarrow> \<lparr>TicketID = ticketID, Status = ''Error'',
                                   Summary = ''Error: '' @ err, IsBlocked = False\<rparr>
                    | Inr ticketInfo \<Rightarrow> ticketInfo)
         else None)"
    by blast
  from t have t3: "\<And>ticketID e.
      ticketID \<in> set ?ids \<and> ticketID \<noteq> [] \<and> \<not> jira_credentials_missing example_jira_opts \<and>
      NewClient_err example_tracker (jira_URL example_jira_opts) = None \<and>
      got_err (Issue_Get example_tracker (jira_make_client example_jira_opts) ticketID) = Some e \<Longrightarrow>
        fst (fst (FetchTicketsInfo example_tracker example_jira_opts ?ids)) ticketID =
          Some (if got_resp (Issue_Get example_tracker (jira_make_client example_jira_opts) ticketID)
                     = Some 404
                then \<lparr>TicketID = ticketID, Status = ''Not Found'',
                       Summary = ''Ticket not found'', IsBlocked = False\<rparr>
                else \<lparr>TicketID = ticketID, Status = ''Error'',
                       Summary = ''Error: '' @ ''error fetching JIRA ticket '' @ ticketID @ '': '' @ e,
                       IsBlocked = False\<rparr>)"
    by blast
  have b: "fst (fst (FetchTicketsInfo example_tracker example_jira_opts ?ids)) ''POKER-404'' =
     Some \<lparr>TicketID = ''POKER-404'', Status = ''Not Found'', Summary = ''Ticket not found'',
           IsBlocked = False\<rparr>"
    using t3 [of "''POKER-404''" "''Issue does not exist''"] h g1 by simp
  have c: "fst (fst (FetchTicketsInfo example_tracker example_jira_opts ?ids)) ''POKER-1'' =
     Some \<lparr>TicketID = ''POKER-1'', Status = ''Error'',
           Summary = ''Error: error fetching JIRA ticket POKER-1: server error'',
           IsBlocked = False\<rparr>"
    using t3 [of "''POKER-1''" "''server error''"] h g2 by simp
  have d: "fst (fst (FetchTicketsInfo example_tracker example_jira_opts ?ids)) ''POKER-42'' =
     Some \<lparr>TicketID = ''POKER-42'', Status = ''Blocked - Waiting'', Summary = ''Fix login'',
           IsBlocked = True\<rparr>"
    using t2 [of "''POKER-42''"] g3 by simp
  from a b c d show ?thesis by blast
qed


section \<open>Properties of the rendering\<close>


lemma Join_append:
  "xs \<noteq> [] \<Longrightarrow> ys \<noteq> [] \<Longrightarrow> Join (xs @ ys) sep = Join xs sep @ sep @ Join ys sep"
proof (induction xs sep rule: Join.induct)
  case (1 sep)
  then show ?case by simp
next
  case (2 x sep)
  then show ?case by (cases ys) auto
next
  case (3 x y ys' sep)
  then show ?case by simp
qed

lemma track_summary_eq:
  "track_summary opts pr (blockedPRs, draftPRs) =
     (blockedPRs @
        (if PRInfo_IsBlocked pr
         then [pr_link (opt_GithubOwner opts) (opt_GithubRepo opts) (PRInfo_Number pr)
               @ (if PRInfo_IsDraft pr then '' (Blocked & Draft)'' else [])]
         else []),
      draftPRs @
        (if PRInfo_IsDraft pr \<and> \<not> PRInfo_IsBlocked pr
         then [pr_link (opt_GithubOwner opts) (opt_GithubRepo opts) (PRInfo_Number pr)]
         else []))"
  by (simp add: track_summary_def)

lemma report_loop_eq:
  "report_loop opts i prs (lines, blockedPRs, draftPRs) =
     (lines @ map (\<lambda>(k, pr). pr_line opts k pr) (List.enumerate i prs),
      blockedPRs @
        map (\<lambda>pr. pr_link (opt_GithubOwner opts) (opt_GithubRepo opts) (PRInfo_Number pr)
                   @ (if PRInfo_IsDraft pr then '' (Blocked & Draft)'' else []))
          (filter PRInfo_IsBlocked prs),
      draftPRs @
        map (\<lambda>pr. pr_link (opt_GithubOwner opts) (opt_GithubRepo opts) (PRInfo_Number pr))
          (filter (\<lambda>pr. PRInfo_IsDraft pr \<and> \<not> PRInfo_IsBlocked pr) prs))"
proof (induction prs arbitrary: i lines blockedPRs draftPRs)
  case Nil
  show ?case by simp
next
  case (Cons pr prs)
  show ?case
    by (simp only: report_loop.simps track_summary_eq Cons.IH) simp
qed

lemma main_track_summary_eq:
  "main_track_summary config pr (blockedPRs, draftPRs) =
     (blockedPRs @
        (if PullRequestInfo_IsBlocked pr
         then [pr_link (cfg_GithubOwner config) (cfg_GithubRepo config) (PullRequestInfo_Number pr)
               @ (if PullRequestInfo_IsDraft pr then '' (Blocked & Draft)'' else [])]
         else []),
      draftPRs @
        (if PullRequestInfo_IsDraft pr \<and> \<not> PullRequestInfo_IsBlocked pr
         then [pr_link (cfg_GithubOwner config) (cfg_GithubRepo config) (PullRequestInfo_Number pr)]
         else []))"
  by (simp add: main_track_summary_def)

lemma main_report_loop_eq:
  "main_report_loop config i prs (lines, blockedPRs, draftPRs) =
     (lines @ map (\<lambda>(k, pr). main_pr_line config k pr) (List.enumerate i prs),
      blockedPRs @
        map (\<lambda>pr. pr_link (cfg_GithubOwner config) (cfg_GithubRepo config)
                     (PullRequestInfo_Number pr)
                   @ (if PullRequestInfo_IsDraft pr then '' (Blocked & Draft)'' else []))
          (filter PullRequestInfo_IsBlocked prs),
      draftPRs @
        map (\<lambda>pr. pr_link (cfg_GithubOwner config) (cfg_GithubRepo config)
                     (PullRequestInfo_Number pr))
          (filter (\<lambda>pr. PullRequestInfo_IsDraft pr \<and> \<not> PullRequestInfo_IsBlocked pr) prs))"
proof (induction prs arbitrary: i lines blockedPRs draftPRs)
  case Nil
  show ?case by simp
next
  case (Cons pr prs)
  show ?case
    by (simp only: main_report_loop.simps main_track_summary_eq Cons.IH) simp
qed

lemma mentions_of_eq:
  "mentions_of userIDs =
     map (\<lambda>u. ''<@'' @ u @ ''>'') (filter (\<lambda>u. u \<noteq> []) (map TrimSpace userIDs))"
  by (induction userIDs) auto

text \<open>The head of the message up to the PR lines, without the date line.\<close>

lemma report_lines_eq:
  "report_lines opts currentDate prs =
     (if opt_ReportTitle opts \<noteq> []
      then [emoji_clipboard @ '' *'' @ opt_ReportTitle opts @ ''*'', []] else [])
     @ ['':date: *'' @ currentDate @ ''*'']
     @ ([[], '':bar_chart: *Total Open PRs: '' @ fmt_d (int (length prs)) @ ''*'', []]
        @ map (\<lambda>(k, pr). pr_line opts k pr) (List.enumerate 0 prs)
        @ [[]]
        @ summary_lines
            (map (\<lambda>pr. pr_link (opt_GithubOwner opts) (opt_GithubRepo opts) (PRInfo_Number pr)
                       @ (if PRInfo_IsDraft pr then '' (Blocked & Draft)'' else []))
               (filter PRInfo_IsBlocked prs))
            (map (\<lambda>pr. pr_link (opt_GithubOwner opts) (opt_GithubRepo opts) (PRInfo_Number pr))
               (filter (\<lambda>pr. PRInfo_IsDraft pr \<and> \<not> PRInfo_IsBlocked pr) prs))
        @ mention_lines opts)"
  by (simp add: report_lines_def report_loop_eq Let_def)

lemma main_report_lines_eq:
  "main_report_lines config currentDate prs =
     ['':date: *'' @ currentDate @ ''*'']
     @ ([[], '':bar_chart: *Total Open PRs: '' @ fmt_d (int (length prs)) @ ''*'', []]
        @ map (\<lambda>(k, pr). main_pr_line config k pr) (List.enumerate 0 prs)
        @ [[]]
        @ main_summary_lines
            (map (\<lambda>pr. pr_link (cfg_GithubOwner config) (cfg_GithubRepo config)
                         (PullRequestInfo_Number pr)
                       @ (if PullRequestInfo_IsDraft pr then '' (Blocked & Draft)'' else []))
               (filter PullRequestInfo_IsBlocked prs))
            (map (\<lambda>pr. pr_link (cfg_GithubOwner config) (cfg_GithubRepo config)
                         (PullRequestInfo_Number pr))
               (filter (\<lambda>pr. PullRequestInfo_IsDraft pr \<and> \<not> PullRequestInfo_IsBlocked pr) prs))
        @ [[], ''<!subteam^'' @ cfg_TeamGroup config
               @ ''> Please make sure to review these pull requests!''])"
  by (simp add: main_report_lines_def main_report_loop_eq Let_def)



lemma summary_lines_eq:
  "summary_lines blockedPRs draftPRs =
     (if blockedPRs \<noteq> [] then [emoji_no_entry @ '' *Blocked:* '' @ Join blockedPRs '', ''] else [])
     @ (if draftPRs \<noteq> [] then [emoji_memo @ '' *Draft:* '' @ Join draftPRs '', ''] else [])
     @ (if blockedPRs = [] \<and> draftPRs = [] then [emoji_check @ '' *Blocked/Draft:* N/A''] else [])"
  by (simp add: summary_lines_def)

lemma main_summary_lines_eq:
  "main_summary_lines blockedPRs draftPRs =
     (if blockedPRs \<noteq> [] then [main_emoji_blocked @ '' *Blocked:* '' @ Join blockedPRs '', '']
      else [])
     @ (if draftPRs \<noteq> [] then [main_emoji_draft @ '' *Draft:* '' @ Join draftPRs '', ''] else [])
     @ (if blockedPRs = [] \<and> draftPRs = [] then [main_emoji_check @ '' *Blocked/Draft:* N/A'']
        else [])"
  by (simp add: main_summary_lines_def)

lemma filter_empty_iff: "filter P xs = [] \<longleftrightarrow> \<not> (\<exists>x \<in> set xs. P x)"
  by (simp add: filter_empty_conv)

lemma report_footer_lines:
  "\<exists>shown blocked draft.
     report_lines opts currentDate prs =
       shown @ [[]]
       @ (if \<exists>pr \<in> set prs. PRInfo_IsBlocked pr
          then [emoji_no_entry @ '' *Blocked:* '' @ blocked] else [])
       @ (if \<exists>pr \<in> set prs. PRInfo_IsDraft pr \<and> \<not> PRInfo_IsBlocked pr
          then [emoji_memo @ '' *Draft:* '' @ draft] else [])
       @ (if \<not> (\<exists>pr \<in> set prs. PRInfo_IsBlocked pr \<or> PRInfo_IsDraft pr)
          then [emoji_check @ '' *Blocked/Draft:* N/A''] else [])
       @ mention_lines opts"
proof -
  let ?B = "map (\<lambda>pr. pr_link (opt_GithubOwner opts) (opt_GithubRepo opts) (PRInfo_Number pr)
                       @ (if PRInfo_IsDraft pr then '' (Blocked & Draft)'' else []))
               (filter PRInfo_IsBlocked prs)"
  let ?D = "map (\<lambda>pr. pr_link (opt_GithubOwner opts) (opt_GithubRepo opts) (PRInfo_Number pr))
               (filter (\<lambda>pr. PRInfo_IsDraft pr \<and> \<not> PRInfo_IsBlocked pr) prs)"
  let ?shown = "(if opt_ReportTitle opts \<noteq> []
      then [emoji_clipboard @ '' *'' @ opt_ReportTitle opts @ ''*'', []] else [])
     @ ['':date: *'' @ currentDate @ ''*'']
     @ [[], '':bar_chart: *Total Open PRs: '' @ fmt_d (int (length prs)) @ ''*'', []]
     @ map (\<lambda>(k, pr). pr_line opts k pr) (List.enumerate 0 prs)"
  have B: "?B \<noteq> [] \<longleftrightarrow> (\<exists>pr \<in> set prs. PRInfo_IsBlocked pr)"
    by (simp add: filter_empty_iff)
  have D: "?D \<noteq> [] \<longleftrightarrow> (\<exists>pr \<in> set prs. PRInfo_IsDraft pr \<and> \<not> PRInfo_IsBlocked pr)"
    by (simp add: filter_empty_iff)
  have N: "(?B = [] \<and> ?D = []) \<longleftrightarrow> \<not> (\<exists>pr \<in> set prs. PRInfo_IsBlocked pr \<or> PRInfo_IsDraft pr)"
    using B D by blast
  have "report_lines opts currentDate prs = ?shown @ [[]] @ summary_lines ?B ?D @ mention_lines opts"
    by (simp add: report_lines_eq)
  also have "summary_lines ?B ?D =
      (if \<exists>pr \<in> set prs. PRInfo_IsBlocked pr
          then [emoji_no_entry @ '' *Blocked:* '' @ Join ?B '', ''] else [])
       @ (if \<exists>pr \<in> set prs. PRInfo_IsDraft pr \<and> \<not> PRInfo_IsBlocked pr
          then [emoji_memo @ '' *Draft:* '' @ Join ?D '', ''] else [])
       @ (if \<not> (\<exists>pr \<in> set prs. PRInfo_IsBlocked pr \<or> PRInfo_IsDraft pr)
          then [emoji_check @ '' *Blocked/Draft:* N/A''] else [])"
    unfolding summary_lines_eq B D N ..
  finally have "report_lines opts currentDate prs =
       ?shown @ [[]]
       @ (if \<exists>pr \<in> set prs. PRInfo_IsBlocked pr
          then [emoji_no_entry @ '' *Blocked:* '' @ Join ?B '', ''] else [])
       @ (if \<exists>pr \<in> set prs. PRInfo_IsDraft pr \<and> \<not> PRInfo_IsBlocked pr
          then [emoji_memo @ '' *Draft:* '' @ Join ?D '', ''] else [])
       @ (if \<not> (\<exists>pr \<in> set prs. PRInfo_IsBlocked pr \<or> PRInfo_IsDraft pr)
          then [emoji_check @ '' *Blocked/Draft:* N/A''] else [])
       @ mention_lines opts"
    by (simp only: append_assoc)
  then show ?thesis by (intro exI)
qed

lemma main_report_footer_lines:
  "\<exists>shown blocked draft.
     main_report_lines config currentDate prs =
       shown @ [[]]
       @ (if \<exists>pr \<in> set prs. PullRequestInfo_IsBlocked pr
          then [main_emoji_blocked @ '' *Blocked:* '' @ blocked] else [])
       @ (if \<exists>pr \<in> set prs. PullRequestInfo_IsDraft pr \<and> \<not> PullRequestInfo_IsBlocked pr
          then [main_emoji_draft @ '' *Draft:* '' @ draft] else [])
       @ (if \<not> (\<exists>pr \<in> set prs. PullRequestInfo_IsBlocked pr \<or> PullRequestInfo_IsDraft pr)
          then [main_emoji_check @ '' *Blocked/Draft:* N/A''] else [])
       @ [[], ''<!subteam^'' @ cfg_TeamGroup config
              @ ''> Please make sure to review these pull requests!'']"
proof -
  let ?B = "map (\<lambda>pr. pr_link (cfg_GithubOwner config) (cfg_GithubRepo config)
                         (PullRequestInfo_Number pr)
                       @ (if PullRequestInfo_IsDraft pr then '' (Blocked & Draft)'' else []))
               (filter PullRequestInfo_IsBlocked prs)"
  let ?D = "map (\<lambda>pr. pr_link (cfg_GithubOwner config) (cfg_GithubRepo config)
                         (PullRequestInfo_Number pr))
               (filter (\<lambda>pr. PullRequestInfo_IsDraft pr \<and> \<not> PullRequestInfo_IsBlocked pr) prs)"
  let ?shown = "['':date: *'' @ currentDate @ ''*'']
     @ [[], '':bar_chart: *Total Open PRs: '' @ fmt_d (int (length prs)) @ ''*'', []]
     @ map (\<lambda>(k, pr). main_pr_line config k pr) (List.enumerate 0 prs)"
  have B: "?B \<noteq> [] \<longleftrightarrow> (\<exists>pr \<in> set prs. PullRequestInfo_IsBlocked pr)"
    by (simp add: filter_empty_iff)
  have D: "?D \<noteq> [] \<longleftrightarrow>
             (\<exists>pr \<in> set prs. PullRequestInfo_IsDraft pr \<and> \<not> PullRequestInfo_IsBlocked pr)"
    by (simp add: filter_empty_iff)
  have N: "(?B = [] \<and> ?D = []) \<longleftrightarrow>
             \<not> (\<exists>pr \<in> set prs. PullRequestInfo_IsBlocked pr \<or> PullRequestInfo_IsDraft pr)"
    using B D by blast
  have "main_report_lines config currentDate prs =
          ?shown @ [[]] @ main_summary_lines ?B ?D
          @ [[], ''<!subteam^'' @ cfg_TeamGroup config
                 @ ''> Please make sure to review these pull requests!'']"
    by (simp add: main_report_lines_eq)
  also have "main_summary_lines ?B ?D =
      (if \<exists>pr \<in> set prs. PullRequestInfo_IsBlocked pr
          then [main_emoji_blocked @ '' *Blocked:* '' @ Join ?B '', ''] else [])
       @ (if \<exists>pr \<in> set prs. PullRequestInfo_IsDraft pr \<and> \<not> PullRequestInfo_IsBlocked pr
          then [main_emoji_draft @ '' *Draft:* '' @ Join ?D '', ''] else [])
       @ (if \<not> (\<exists>pr \<in> set prs. PullRequestInfo_IsBlocked pr \<or> PullRequestInfo_IsDraft pr)
          then [main_emoji_check @ '' *Blocked/Draft:* N/A''] else [])"
    unfolding main_summary_lines_eq B D N ..
  finally have "main_report_lines config currentDate prs =
       ?shown @ [[]]
       @ (if \<exists>pr \<in> set prs. PullRequestInfo_IsBlocked pr
          then [main_emoji_blocked @ '' *Blocked:* '' @ Join ?B '', ''] else [])
       @ (if \<exists>pr \<in> set prs. PullRequestInfo_IsDraft pr \<and> \<not> PullRequestInfo_IsBlocked pr
          then [main_emoji_draft @ '' *Draft:* '' @ Join ?D '', ''] else [])
       @ (if \<not> (\<exists>pr \<in> set prs. PullRequestInfo_IsBlocked pr \<or> PullRequestInfo_IsDraft pr)
          then [main_emoji_check @ '' *Blocked/Draft:* N/A''] else [])
       @ [[], ''<!subteam^'' @ cfg_TeamGroup config
              @ ''> Please make sure to review these pull requests!'']"
    by (simp only: append_assoc)
  then show ?thesis by (intro exI)
qed

lemma mention_lines_users:
  "opt_MentionUsers opts \<noteq> [] \<Longrightarrow>
     mention_lines opts =
       [] # (if filter (\<lambda>u. u \<noteq> []) (map TrimSpace (Split (opt_MentionUsers opts) CHR '','')) = []
             then []
             else [Join (map (\<lambda>u. ''<@'' @ u @ ''>'')
                          (filter (\<lambda>u. u \<noteq> [])
                             (map TrimSpace (Split (opt_MentionUsers opts) CHR '','')))) '' ''
                   @ '' Please make sure to review these pull requests!''])"
  by (simp add: mention_lines_def mentions_of_eq Let_def)


text \<open>
  C8. Rendering is a function of the options, the PR list and the date, and the date enters one
  line only: the lines before and after the date line are the same for every date, and so are
  the bytes of the message before and after the date.
\<close>

theorem report_depends_on_date_in_one_line:
  "\<exists>before after.
     (\<forall>currentDate.
        report_lines opts currentDate prs
          = before @ ['':date: *'' @ currentDate @ ''*''] @ after) \<and>
     (\<forall>currentDate.
        report_message opts currentDate prs
          = (if before = [] then [] else Join before [CHR 0x0A] @ [CHR 0x0A])
            @ '':date: *'' @ currentDate @ ''*'' @ [CHR 0x0A] @ Join after [CHR 0x0A])"
proof -
  define before where "before =
     (if opt_ReportTitle opts \<noteq> []
      then [emoji_clipboard @ '' *'' @ opt_ReportTitle opts @ ''*'', []] else [])"
  define after where "after =
     [[], '':bar_chart: *Total Open PRs: '' @ fmt_d (int (length prs)) @ ''*'', []]
        @ map (\<lambda>(k, pr). pr_line opts k pr) (List.enumerate 0 prs)
        @ [[]]
        @ summary_lines
            (map (\<lambda>pr. pr_link (opt_GithubOwner opts) (opt_GithubRepo opts) (PRInfo_Number pr)
                       @ (if PRInfo_IsDraft pr then '' (Blocked & Draft)'' else []))
               (filter PRInfo_IsBlocked prs))
            (map (\<lambda>pr. pr_link (opt_GithubOwner opts) (opt_GithubRepo opts) (PRInfo_Number pr))
               (filter (\<lambda>pr. PRInfo_IsDraft pr \<and> \<not> PRInfo_IsBlocked pr) prs))
        @ mention_lines opts"
  have lines: "report_lines opts d prs = before @ ['':date: *'' @ d @ ''*''] @ after" for d
    unfolding before_def after_def by (rule report_lines_eq)
  have ne: "after \<noteq> []" by (simp add: after_def)
  have 1: "Join (['':date: *'' @ d @ ''*''] @ after) [CHR 0x0A]
            = '':date: *'' @ d @ ''*'' @ [CHR 0x0A] @ Join after [CHR 0x0A]" for d
    using Join_append [of "['':date: *'' @ d @ ''*'']" after "[CHR 0x0A]"] ne by simp
  have msg: "report_message opts d prs
          = (if before = [] then [] else Join before [CHR 0x0A] @ [CHR 0x0A])
            @ '':date: *'' @ d @ ''*'' @ [CHR 0x0A] @ Join after [CHR 0x0A]" for d
  proof (cases "before = []")
    case True
    then show ?thesis unfolding report_message_def lines using 1 [of d] by simp
  next
    case False
    then show ?thesis
      unfolding report_message_def lines
      using Join_append [of before "['':date: *'' @ d @ ''*''] @ after" "[CHR 0x0A]"] 1 [of d]
      by simp
  qed
  from lines msg show ?thesis by blast
qed

end
